theory Spec2Isabelle
  imports Complex_Main "HOL-Library.Sublist" "HOL-Library.Word"
begin

section \<open>Strings, errors and the shared types\<close>

text \<open>
  A JavaScript string is a sequence of 16-bit code units. The custom instructions, which
  the user types and \<^verbatim>\<open>trim\<close> inspects, and the prompt that holds them are lists of
  such code units. The string literals of the program are ASCII; they, and the strings
  that the program only compares, measures or passes on, are written as \<^typ>\<open>string\<close>,
  and \<open>js\<close> gives the code units of such a text. An optional argument or property
  (\<^verbatim>\<open>undefined\<close>) is \<^const>\<open>None\<close>.
\<close>

type_synonym code_units = "16 word list"

definition js :: "string \<Rightarrow> code_units" where
  "js s = map of_char s"

definition nl :: string where
  "nl = [CHR 0x0A]"

definition dq :: string where
  "dq = [CHR 0x22]"

text \<open>A thrown value: the constructor that made it and its \<^verbatim>\<open>message\<close>.\<close>

datatype error =
    Error string
  | RangeError string
  | NotSupportedError string
  | InvalidCharacterError string
  | QuotaExceededError string

fun message :: "error \<Rightarrow> string" where
  "message (Error m) = m"
| "message (RangeError m) = m"
| "message (NotSupportedError m) = m"
| "message (InvalidCharacterError m) = m"
| "message (QuotaExceededError m) = m"

text \<open>Truthiness of a value of type \<^verbatim>\<open>string | undefined\<close>: defined and not empty.\<close>

fun truthy :: "string option \<Rightarrow> bool" where
  "truthy None = False"
| "truthy (Some s) = (s \<noteq> [])"

text \<open>The declarations of the types module.\<close>

datatype GeminiModel = FLASH | PRO

fun model_id :: "GeminiModel \<Rightarrow> string" where
  "model_id FLASH = ''gemini-2.5-flash''"
| "model_id PRO = ''gemini-3-pro-preview''"

record AnswerData =
  answer_text :: string
  modelUsed :: string

datatype Depth = Concise | Detailed
datatype Language = English | Hinglish
datatype Focus = Exam | Concept

record AppSettings =
  depth :: Depth
  language :: Language
  focus :: Focus

text \<open>The fields of a browser \<^verbatim>\<open>File\<close> that the program reads.\<close>

record File =
  file_name :: string
  file_type :: string
  file_size :: nat

section \<open>The generation service\<close>

definition SYSTEM_INSTRUCTION :: string where
  "SYSTEM_INSTRUCTION =
     '''' @ nl @
     ''You are an expert Academic Mentor and Study Guide Creator, inspired by the values of '' @ [CHR 0x22] @ ''Vidya'' @ [CHR 0x22] @ '' (Knowledge) and '' @ [CHR 0x22] @ ''Purusharth'' @ [CHR 0x22] @ '' (Hard Work).'' @ nl @
     '''' @ nl @
     ''**Role & Tone:**'' @ nl @
     ''- Tone: Professional, Encouraging, Precise.'' @ nl @
     ''- Values: Integrity, Clarity, and Depth.'' @ nl @
     '''' @ nl @
     ''**Tasks:**'' @ nl @
     ''1. **Content Extraction**: Identify all questions from the input PDF.'' @ nl @
     ''2. **Comprehensive Solutions**: Provide accurate, step-by-step solutions.'' @ nl @
     ''3. **Concept Roadmap (MANDATORY)**: At the end, create a section '' @ [CHR 0x22] @ ''## '' @ [CHR 0xF0, CHR 0x9F, CHR 0x97, CHR 0xBA, CHR 0xEF, CHR 0xB8, CHR 0x8F] @ '' Concept Roadmap'' @ [CHR 0x22] @ '' showing the flow of topics.'' @ nl @
     ''4. **Formatting**:'' @ nl @
     ''   - **Math**: Use LaTeX ($$ ... $$ for block, $ ... $ for inline).'' @ nl @
     ''   - **Structure**: Clear Headers (##).'' @ nl @
     ''   - **Tables**: Markdown tables for comparisons.'' @ nl @
     '''' @ nl @
     ''**Output Structure:**'' @ nl @
     ''- **Title**'' @ nl @
     ''- **Study Plan Summary**'' @ nl @
     ''- **Questions & Answers**'' @ nl @
     ''- **Concept Roadmap**'' @ nl @
     '''' @ nl @
     ''Do not include conversational filler.'' @ nl @
     ''''"

text \<open>
  The map symbol of the roadmap heading lies outside the character range and is written as
  its UTF-8 bytes; the program only passes the constant on.
\<close>

subsection \<open>fileToBase64\<close>

text \<open>
  \<^verbatim>\<open>String.prototype.split\<close> with a one-character separator: the segments between the
  separators, one more than there are separators.
\<close>

fun split_js :: "char \<Rightarrow> string \<Rightarrow> string list" where
  "split_js sep [] = [[]]"
| "split_js sep (c # cs) =
     (if c = sep then [] # split_js sep cs
      else (case split_js sep cs of
              [] \<Rightarrow> [[c]]
            | seg # segs \<Rightarrow> (c # seg) # segs))"

text \<open>Indexing an array: \<^verbatim>\<open>undefined\<close> beyond its end.\<close>

definition at_index :: "'a list \<Rightarrow> nat \<Rightarrow> 'a option" where
  "at_index xs i = (if i < length xs then Some (xs ! i) else None)"

text \<open>
  The \<^verbatim>\<open>FileReader\<close> is the environment: \<open>readAsDataURL file\<close> is either the error
  given to \<^verbatim>\<open>onerror\<close> or the data URL given to \<^verbatim>\<open>onload\<close>.
\<close>

definition fileToBase64 :: "(File \<Rightarrow> error + string) \<Rightarrow> File \<Rightarrow> error + string option" where
  "fileToBase64 readAsDataURL file =
     (case readAsDataURL file of
        Inl e \<Rightarrow> Inl e
      | Inr result \<Rightarrow> Inr (at_index (split_js (CHR '','') result) 1))"

subsection \<open>The prompt of generateAnswersFromPdf\<close>

text \<open>
  \<^verbatim>\<open>String.prototype.trim\<close> removes, at both ends, the code units that ECMAScript calls
  WhiteSpace or LineTerminator. WhiteSpace is tab, vertical tab, form feed, the zero width
  no-break space U+FEFF and the space separators of Unicode: space, no-break space, U+1680,
  U+2000 to U+200A, U+202F, U+205F and U+3000. LineTerminator is line feed, carriage
  return, U+2028 and U+2029.
\<close>

definition WhiteSpace :: "16 word list" where
  "WhiteSpace =
     [0x0009, 0x000B, 0x000C, 0xFEFF,
      0x0020, 0x00A0, 0x1680,
      0x2000, 0x2001, 0x2002, 0x2003, 0x2004, 0x2005, 0x2006, 0x2007, 0x2008, 0x2009, 0x200A,
      0x202F, 0x205F, 0x3000]"

definition LineTerminator :: "16 word list" where
  "LineTerminator = [0x000A, 0x000D, 0x2028, 0x2029]"

definition is_whitespace :: "16 word \<Rightarrow> bool" where
  "is_whitespace c \<longleftrightarrow> c \<in> set WhiteSpace \<or> c \<in> set LineTerminator"

definition trim :: "code_units \<Rightarrow> code_units" where
  "trim s = rev (dropWhile is_whitespace (rev (dropWhile is_whitespace s)))"

definition basePrompt :: string where
  "basePrompt = ''Generate a comprehensive study guide, solution key, and concept roadmap for the questions in this PDF. Use LaTeX for all math.''"

definition depthConcise :: string where
  "depthConcise = nl @ ''- DEPTH: Concise. Focus on key points and direct answers. Avoid fluff.''"

definition depthDetailed :: string where
  "depthDetailed = nl @ ''- DEPTH: Detailed. Provide in-depth explanations, background context, and step-by-step derivations.''"

definition languageHinglish :: string where
  "languageHinglish = nl @ ''- LANGUAGE: Use English for technical terms but explain concepts using simple analogies or occasional Hindi/Gujarati context where helpful for Indian students (Hinglish style).''"

definition focusExam :: string where
  "focusExam = nl @ ''- FOCUS: Exam Preparation. Highlight potential exam questions, common pitfalls, and marking scheme tips.''"

definition focusConcept :: string where
  "focusConcept = nl @ ''- FOCUS: Concept Mastery. Focus on deep understanding, real-world applications, and connecting dots between topics.''"

text \<open>
  The part of the prompt that comes from the settings: \<^verbatim>\<open>if (settings) { ... }\<close>. It is
  made of literals of the program only.
\<close>

definition applySettings :: "string \<Rightarrow> AppSettings option \<Rightarrow> string" where
  "applySettings promptText settings =
     (case settings of
        None \<Rightarrow> promptText
      | Some st \<Rightarrow>
          (let p1 = promptText @ nl @ nl @ ''CONFIGURATION:'';
               p2 = (if depth st = Concise then p1 @ depthConcise else p1 @ depthDetailed);
               p3 = (if language st = Hinglish then p2 @ languageHinglish else p2);
               p4 = (if focus st = Exam then p3 @ focusExam else p3 @ focusConcept)
           in p4))"

text \<open>
  The custom instructions: \<^verbatim>\<open>if (customInstructions && customInstructions.trim().length > 0)\<close>,
  then the template with the instructions as they are between its two literal parts.
\<close>

definition applyCustomInstructions :: "code_units \<Rightarrow> code_units option \<Rightarrow> code_units" where
  "applyCustomInstructions promptText customInstructions =
     (case customInstructions of
        None \<Rightarrow> promptText
      | Some ci \<Rightarrow>
          (if ci \<noteq> [] \<and> length (trim ci) > 0
           then promptText @ js (nl @ nl @ ''USER SPECIFIC INSTRUCTIONS: '' @ dq) @ ci @ js (dq @ ''.'')
           else promptText))"

definition assemblePrompt :: "code_units option \<Rightarrow> AppSettings option \<Rightarrow> code_units" where
  "assemblePrompt customInstructions settings =
     applyCustomInstructions (js (applySettings basePrompt settings)) customInstructions"

subsection \<open>The two calls of generateAnswersFromPdf\<close>

text \<open>
  A request to \<^verbatim>\<open>ai.models.generateContent\<close> and its outcome. The hosted model is the
  environment: a function from the request to the error it raises or the response it gives.
\<close>

record GenerateContentParameters =
  model :: string
  inlineData :: "string option"
  mimeType :: string
  prompt :: code_units
  systemInstruction :: string
  thinkingBudget :: "nat option"

record GenerateContentResponse =
  response_text :: "string option"

type_synonym generate_content = "GenerateContentParameters \<Rightarrow> error + GenerateContentResponse"

definition proRequest :: "string option \<Rightarrow> string \<Rightarrow> code_units \<Rightarrow> GenerateContentParameters" where
  "proRequest base64Data mime promptText =
     \<lparr>model = model_id PRO, inlineData = base64Data, mimeType = mime, prompt = promptText,
      systemInstruction = SYSTEM_INSTRUCTION, thinkingBudget = Some 2048\<rparr>"

definition flashRequest :: "string option \<Rightarrow> string \<Rightarrow> code_units \<Rightarrow> GenerateContentParameters" where
  "flashRequest base64Data mime promptText =
     \<lparr>model = model_id FLASH, inlineData = base64Data, mimeType = mime, prompt = promptText,
      systemInstruction = SYSTEM_INSTRUCTION, thinkingBudget = None\<rparr>"

text \<open>
  The body of a \<^verbatim>\<open>try\<close> block: the call, then the answer when the text is truthy, else
  the error thrown for an empty response.
\<close>

definition tryModel :: "generate_content \<Rightarrow> GenerateContentParameters \<Rightarrow> GeminiModel \<Rightarrow> string \<Rightarrow> error + AnswerData" where
  "tryModel generateContent request m emptyMessage =
     (case generateContent request of
        Inl e \<Rightarrow> Inl e
      | Inr response \<Rightarrow>
          (if truthy (response_text response)
           then Inr \<lparr>answer_text = the (response_text response), modelUsed = model_id m\<rparr>
           else Inl (Error emptyMessage)))"

definition failureMessage :: string where
  "failureMessage = ''Failed to generate answers. Please try again later or check if the PDF is valid.''"

text \<open>
  generateAnswersFromPdf returns what the promise settles to (\<open>Inl\<close> a rejection) and the
  requests sent to the hosted model, in order.
\<close>

definition generateAnswersFromPdf ::
  "(File \<Rightarrow> error + string) \<Rightarrow> generate_content \<Rightarrow> File \<Rightarrow> code_units option \<Rightarrow> AppSettings option
     \<Rightarrow> (error + AnswerData) \<times> GenerateContentParameters list" where
  "generateAnswersFromPdf readAsDataURL generateContent file customInstructions settings =
     (case fileToBase64 readAsDataURL file of
        Inl e \<Rightarrow> (Inl e, [])
      | Inr base64Data \<Rightarrow>
          (let mime = file_type file;
               promptText = assemblePrompt customInstructions settings;
               pro = proRequest base64Data mime promptText;
               flash = flashRequest base64Data mime promptText
           in case tryModel generateContent pro PRO ''Empty response from Pro model'' of
                Inr answer \<Rightarrow> (Inr answer, [pro])
              | Inl error \<Rightarrow>
                  (case tryModel generateContent flash FLASH ''Empty response from Flash model'' of
                     Inr answer \<Rightarrow> (Inr answer, [pro, flash])
                   | Inl finalError \<Rightarrow> (Inl (Error failureMessage), [pro, flash]))))"

subsection \<open>generateAudioGuide\<close>

text \<open>
  The speech endpoint is the environment: from the prompt to the error it raises or to
  \<^verbatim>\<open>response.candidates?.[0]?.content?.parts?.[0]?.inlineData?.data\<close>, which is
  \<^verbatim>\<open>undefined\<close> as soon as one link of the chain is missing.
\<close>

type_synonym speech_endpoint = "string \<Rightarrow> error + string option"

definition generateAudioGuide :: "speech_endpoint \<Rightarrow> string \<Rightarrow> error + string" where
  "generateAudioGuide generateSpeech guide =
     (let summaryPrompt = ''Read this study guide clearly and professionally. Content: '' @ take 4000 guide
      in case generateSpeech summaryPrompt of
           Inl e \<Rightarrow> Inl e
         | Inr base64Audio \<Rightarrow>
             (if \<not> truthy base64Audio then Inl (Error ''No audio generated by the model.'')
              else Inr (the base64Audio)))"

subsection \<open>generateEducationalVideo\<close>

text \<open>
  What the program reads of a video operation: \<^verbatim>\<open>operation.done\<close> and the chain
  \<^verbatim>\<open>operation.response?.generatedVideos?.[0]?.video?.uri\<close>.
\<close>

record Video =
  uri :: "string option"

record GeneratedVideo =
  video :: "Video option"

record GenerateVideosResponse =
  generatedVideos :: "GeneratedVideo list option"

record Operation =
  operation_done :: "bool option"
  operation_response :: "GenerateVideosResponse option"

definition isDone :: "Operation \<Rightarrow> bool" where
  "isDone operation \<longleftrightarrow> operation_done operation = Some True"

definition videoUriOf :: "Operation \<Rightarrow> string option" where
  "videoUriOf operation =
     (case operation_response operation of
        None \<Rightarrow> None
      | Some response \<Rightarrow>
          (case generatedVideos response of
             None \<Rightarrow> None
           | Some videos \<Rightarrow>
               (case at_index videos 0 of
                  None \<Rightarrow> None
                | Some generated \<Rightarrow>
                    (case video generated of
                       None \<Rightarrow> None
                     | Some v \<Rightarrow> uri v))))"

text \<open>
  What the function does to the outside, in order: the request that starts the operation,
  a timer of so many milliseconds, a status query.
\<close>

datatype effect =
    GenerateVideos string
  | Sleep nat
  | GetVideosOperation

text \<open>
  The video service is the environment: \<open>generateVideos\<close> answers the first request,
  \<open>getVideosOperation k\<close> the status query number \<open>k\<close> (from 0); each raises or gives an
  operation. The loop has no bound, so it is a partial function: \<^const>\<open>None\<close> is a loop
  that never ends.
\<close>

partial_function (option) pollOperation ::
  "(nat \<Rightarrow> error + Operation) \<Rightarrow> nat \<Rightarrow> Operation \<Rightarrow> effect list \<Rightarrow> ((error + Operation) \<times> effect list) option" where
  "pollOperation getVideosOperation k operation trace =
     (if \<not> isDone operation
      then (case getVideosOperation k of
              Inl e \<Rightarrow> Some (Inl e, trace @ [Sleep 5000, GetVideosOperation])
            | Inr operation' \<Rightarrow>
                pollOperation getVideosOperation (Suc k) operation' (trace @ [Sleep 5000, GetVideosOperation]))
      else Some (Inr operation, trace))"

definition videoPrompt :: "string \<Rightarrow> string" where
  "videoPrompt p = ''Professional educational animation, 3d style, clear and bright visuals, explaining: '' @ p"

definition generateEducationalVideo ::
  "(string \<Rightarrow> error + Operation) \<Rightarrow> (nat \<Rightarrow> error + Operation) \<Rightarrow> string \<Rightarrow> ((error + string) \<times> effect list) option" where
  "generateEducationalVideo generateVideos getVideosOperation p =
     (case generateVideos (videoPrompt p) of
        Inl e \<Rightarrow> Some (Inl e, [GenerateVideos (videoPrompt p)])
      | Inr operation0 \<Rightarrow>
          (case pollOperation getVideosOperation 0 operation0 [GenerateVideos (videoPrompt p)] of
             None \<Rightarrow> None
           | Some (Inl e, trace) \<Rightarrow> Some (Inl e, trace)
           | Some (Inr operation, trace) \<Rightarrow>
               (let videoUri = videoUriOf operation
                in if \<not> truthy videoUri
                   then Some (Inl (Error ''Video generation completed but no URI returned.''), trace)
                   else Some (Inr (the videoUri), trace))))"

section \<open>The upload area\<close>

text \<open>
  The state of the component is its error line; \<open>onFileSelect\<close> is a property of the
  component, and the files it was called with are kept in order.
\<close>

record UploadAreaState =
  upload_error :: "string option"
  onFileSelect :: "File list"

definition validateAndSetFile :: "File \<Rightarrow> UploadAreaState \<Rightarrow> UploadAreaState" where
  "validateAndSetFile file s =
     (let s1 = s\<lparr>upload_error := None\<rparr>
      in if file_type file \<noteq> ''application/pdf''
         then s1\<lparr>upload_error := Some ''Only PDF files are allowed.''\<rparr>
         else if file_size file > 20 * 1024 * 1024
         then s1\<lparr>upload_error := Some ''File size exceeds the 20MB limit.''\<rparr>
         else s1\<lparr>onFileSelect := onFileSelect s1 @ [file]\<rparr>)"

section \<open>The audio player\<close>

subsection \<open>Decoding\<close>

text \<open>
  \<open>atob\<close> is the browser's: it raises on a string that is not base64 and gives a string
  of characters 0 to 255 otherwise. The bytes are the character codes.
\<close>

definition decodeBase64 :: "(string \<Rightarrow> error + string) \<Rightarrow> string \<Rightarrow> error + 8 word list" where
  "decodeBase64 atob base64 =
     (case atob base64 of
        Inl e \<Rightarrow> Inl e
      | Inr binaryString \<Rightarrow> Inr (map of_char binaryString))"

text \<open>
  \<^verbatim>\<open>new Int16Array(buffer)\<close> views the whole buffer as 16-bit signed integers, two bytes
  each with the low byte first, and raises a RangeError when the byte length is odd.
\<close>

fun int16View :: "8 word list \<Rightarrow> 16 word list" where
  "int16View (lo # hi # bytes) = word_cat hi lo # int16View bytes"
| "int16View bytes = []"

definition Int16Array :: "8 word list \<Rightarrow> error + 16 word list" where
  "Int16Array buffer =
     (if length buffer mod 2 \<noteq> 0
      then Inl (RangeError ''byte length of Int16Array should be a multiple of 2'')
      else Inr (int16View buffer))"

text \<open>
  \<^verbatim>\<open>createBuffer\<close> of the Web Audio interface gives a buffer of silence and raises a
  NotSupportedError for a length of zero frames. Samples are 32-bit floats; every value
  stored here is a 16-bit integer over \<open>2^15\<close>, which such a float holds exactly.
\<close>

record AudioBuffer =
  numberOfChannels :: nat
  sampleRate :: nat
  channelData :: "real list"

definition createBuffer :: "nat \<Rightarrow> nat \<Rightarrow> nat \<Rightarrow> error + AudioBuffer" where
  "createBuffer numChannels frameCount rate =
     (if numChannels = 0 \<or> frameCount = 0 \<or> rate = 0
      then Inl (NotSupportedError ''The number of frames provided (0) is less than or equal to the minimum bound (0).'')
      else Inr \<lparr>numberOfChannels = numChannels, sampleRate = rate,
                channelData = replicate frameCount 0\<rparr>)"

text \<open>The loop \<^verbatim>\<open>for (let i = 0; i < frameCount; i++)\<close>, where \<open>frameCount\<close> is the length of the view.\<close>

function fillChannel :: "16 word list \<Rightarrow> nat \<Rightarrow> real list \<Rightarrow> real list" where
  "fillChannel dataInt16 i samples =
     (if i < length dataInt16
      then fillChannel dataInt16 (Suc i) (samples[i := real_of_int (sint (dataInt16 ! i)) / 32768])
      else samples)"
  by pat_completeness auto
termination
  by (relation "measure (\<lambda>(dataInt16, i, samples). length dataInt16 - i)") auto

declare fillChannel.simps [simp del]

definition decodePcm :: "8 word list \<Rightarrow> error + AudioBuffer" where
  "decodePcm audioData =
     (case Int16Array audioData of
        Inl e \<Rightarrow> Inl e
      | Inr dataInt16 \<Rightarrow>
          (let numChannels = 1; rate = 24000; frameCount = length dataInt16 div numChannels
           in case createBuffer numChannels frameCount rate of
                Inl e \<Rightarrow> Inl e
              | Inr buffer \<Rightarrow>
                  Inr (buffer\<lparr>channelData := fillChannel dataInt16 0 (channelData buffer)\<rparr>)))"

subsection \<open>The component\<close>

text \<open>
  The state and the refs of the component. \<open>started\<close> lists the buffers given to a source
  node that was started, \<open>synthesisCalls\<close> the guide texts given to generateAudioGuide.
\<close>

record AudioPlayerState =
  isPlaying :: bool
  isLoading :: bool
  audio_error :: "string option"
  hasAudio :: bool
  audioContext :: bool
  sourceRef :: "AudioBuffer option"
  audioBufferRef :: "AudioBuffer option"
  started :: "AudioBuffer list"
  synthesisCalls :: "string list"

definition initialAudioPlayer :: AudioPlayerState where
  "initialAudioPlayer =
     \<lparr>isPlaying = False, isLoading = False, audio_error = None, hasAudio = False,
      audioContext = False, sourceRef = None, audioBufferRef = None, started = [],
      synthesisCalls = []\<rparr>"

definition playBuffer :: "AudioBuffer \<Rightarrow> AudioPlayerState \<Rightarrow> AudioPlayerState" where
  "playBuffer buffer s =
     (if \<not> audioContext s then s
      else s\<lparr>started := started s @ [buffer], sourceRef := Some buffer, isPlaying := True\<rparr>)"

definition stopAudio :: "AudioPlayerState \<Rightarrow> AudioPlayerState" where
  "stopAudio s =
     (let s1 = (if sourceRef s \<noteq> None then s\<lparr>sourceRef := None\<rparr> else s)
      in s1\<lparr>isPlaying := False\<rparr>)"

text \<open>
  The \<^verbatim>\<open>try\<close> block of handleGenerateAndPlay: the state it leaves, and the error when it
  throws. The audio context is made before the samples are decoded.
\<close>

definition generateAndDecode ::
  "speech_endpoint \<Rightarrow> (string \<Rightarrow> error + string) \<Rightarrow> string \<Rightarrow> AudioPlayerState \<Rightarrow> error option \<times> AudioPlayerState" where
  "generateAndDecode generateSpeech atob guide s =
     (let s1 = s\<lparr>synthesisCalls := synthesisCalls s @ [guide]\<rparr>
      in case generateAudioGuide generateSpeech guide of
           Inl e \<Rightarrow> (Some e, s1)
         | Inr base64Audio \<Rightarrow>
             (case decodeBase64 atob base64Audio of
                Inl e \<Rightarrow> (Some e, s1)
              | Inr audioData \<Rightarrow>
                  (let s2 = s1\<lparr>audioContext := True\<rparr>
                   in case decodePcm audioData of
                        Inl e \<Rightarrow> (Some e, s2)
                      | Inr buffer \<Rightarrow>
                          (None, playBuffer buffer (s2\<lparr>audioBufferRef := Some buffer, hasAudio := True\<rparr>)))))"

definition handleGenerateAndPlay ::
  "speech_endpoint \<Rightarrow> (string \<Rightarrow> error + string) \<Rightarrow> string \<Rightarrow> AudioPlayerState \<Rightarrow> AudioPlayerState" where
  "handleGenerateAndPlay generateSpeech atob guide s =
     (if isPlaying s then stopAudio s
      else if hasAudio s \<and> audioBufferRef s \<noteq> None then playBuffer (the (audioBufferRef s)) s
      else (let s1 = s\<lparr>isLoading := True, audio_error := None\<rparr>;
                s2 = (case generateAndDecode generateSpeech atob guide s1 of
                        (None, s') \<Rightarrow> s'
                      | (Some err, s') \<Rightarrow>
                          s'\<lparr>audio_error := Some (if message err \<noteq> [] then message err
                                                   else ''Failed to generate audio.'')\<rparr>)
            in s2\<lparr>isLoading := False\<rparr>))"

text \<open>
  What can happen to a mounted player: a click on its button, with the speech endpoint as
  it answers at that moment, and the end of the running source node.
\<close>

datatype audio_event =
    Click speech_endpoint
  | Ended

fun audioStep :: "(string \<Rightarrow> error + string) \<Rightarrow> string \<Rightarrow> audio_event \<Rightarrow> AudioPlayerState \<Rightarrow> AudioPlayerState" where
  "audioStep atob guide (Click generateSpeech) s = handleGenerateAndPlay generateSpeech atob guide s"
| "audioStep atob guide Ended s = s\<lparr>isPlaying := False\<rparr>"

fun audioRun :: "(string \<Rightarrow> error + string) \<Rightarrow> string \<Rightarrow> audio_event list \<Rightarrow> AudioPlayerState \<Rightarrow> AudioPlayerState" where
  "audioRun atob guide [] s = s"
| "audioRun atob guide (e # es) s = audioRun atob guide es (audioStep atob guide e s)"

section \<open>The application state\<close>




datatype Tab = UploadTab | ViewTab | HistoryTab | SettingsTab















section \<open>Notions of the statements\<close>

subsection \<open>Outcomes of a call to the hosted model\<close>

text \<open>A call fails when it raises or answers with no text, and succeeds otherwise.\<close>

definition callThrows :: "generate_content \<Rightarrow> GenerateContentParameters \<Rightarrow> bool" where
  "callThrows generateContent request =
     (case generateContent request of Inl e \<Rightarrow> True | Inr response \<Rightarrow> False)"

definition callSucceeds :: "generate_content \<Rightarrow> GenerateContentParameters \<Rightarrow> bool" where
  "callSucceeds generateContent request =
     (case generateContent request of
        Inl e \<Rightarrow> False
      | Inr response \<Rightarrow> truthy (response_text response))"

definition callFails :: "generate_content \<Rightarrow> GenerateContentParameters \<Rightarrow> bool" where
  "callFails generateContent request \<longleftrightarrow> \<not> callSucceeds generateContent request"

subsection \<open>Directives in a prompt\<close>

text \<open>The positions at which a text occurs in another, in increasing order.\<close>

fun occurrences :: "'a list \<Rightarrow> 'a list \<Rightarrow> nat list" where
  "occurrences p [] = (if p = [] then [0] else [])"
| "occurrences p (c # cs) = (if prefix p (c # cs) then [0] else []) @ map Suc (occurrences p cs)"

text \<open>
  A depth directive is one of the two depth lines of the program, a language directive
  its language line, a focus directive one of its two focus lines.
\<close>

definition depthDirectives :: "code_units \<Rightarrow> nat list" where
  "depthDirectives t = occurrences (js depthConcise) t @ occurrences (js depthDetailed) t"

definition languageDirectives :: "code_units \<Rightarrow> nat list" where
  "languageDirectives t = occurrences (js languageHinglish) t"

definition focusDirectives :: "code_units \<Rightarrow> nat list" where
  "focusDirectives t = occurrences (js focusExam) t @ occurrences (js focusConcept) t"

definition directivesInOrder :: "code_units \<Rightarrow> bool" where
  "directivesInOrder t \<longleftrightarrow>
     (\<forall>d \<in> set (depthDirectives t). \<forall>l \<in> set (languageDirectives t). d < l) \<and>
     (\<forall>l \<in> set (languageDirectives t). \<forall>f \<in> set (focusDirectives t). l < f) \<and>
     (\<forall>d \<in> set (depthDirectives t). \<forall>f \<in> set (focusDirectives t). d < f)"

definition directiveFree :: "code_units \<Rightarrow> bool" where
  "directiveFree t \<longleftrightarrow> depthDirectives t = [] \<and> languageDirectives t = [] \<and> focusDirectives t = []"

text \<open>
  The code units that count as white space: tab, line feed, vertical tab, form feed,
  carriage return, space, no-break space, U+1680, U+2000 to U+200A, U+2028, U+2029, U+202F,
  U+205F, U+3000 and U+FEFF. Custom instructions are blank when they are absent, empty or
  made of such code units only.
\<close>

definition whiteSpaceCodeUnits :: "16 word set" where
  "whiteSpaceCodeUnits =
     {0x0009, 0x000A, 0x000B, 0x000C, 0x000D, 0x0020, 0x00A0, 0x1680,
      0x2000, 0x2001, 0x2002, 0x2003, 0x2004, 0x2005, 0x2006, 0x2007, 0x2008, 0x2009, 0x200A,
      0x2028, 0x2029, 0x202F, 0x205F, 0x3000, 0xFEFF}"

fun blank :: "code_units option \<Rightarrow> bool" where
  "blank None = True"
| "blank (Some ci) = (\<forall>c \<in> set ci. c \<in> whiteSpaceCodeUnits)"

subsection \<open>Samples of the audio buffer\<close>

text \<open>The sample that a 16-bit integer stands for.\<close>

definition sampleOf :: "16 word \<Rightarrow> real" where
  "sampleOf w = real_of_int (sint w) / 32768"

text \<open>
  A player has decoded audio when \<open>hasAudio\<close> is set and a buffer is stored. The audio
  context is made before any buffer is.
\<close>

definition decoded :: "AudioPlayerState \<Rightarrow> bool" where
  "decoded s \<longleftrightarrow> hasAudio s \<and> audioBufferRef s \<noteq> None"

definition contextBeforeBuffer :: "AudioPlayerState \<Rightarrow> bool" where
  "contextBeforeBuffer s \<longleftrightarrow> (audioBufferRef s \<noteq> None \<longrightarrow> audioContext s)"

subsection \<open>The course of a video operation\<close>

text \<open>
  The operation that the loop holds after \<open>n\<close> status queries, or the error of the last
  one; an operation is running while no query has failed and it does not report done.
\<close>

definition heldAfter :: "(nat \<Rightarrow> error + Operation) \<Rightarrow> Operation \<Rightarrow> nat \<Rightarrow> error + Operation" where
  "heldAfter getVideosOperation operation0 n =
     (if n = 0 then Inr operation0 else getVideosOperation (n - 1))"

definition running :: "error + Operation \<Rightarrow> bool" where
  "running held = (case held of Inl e \<Rightarrow> False | Inr operation \<Rightarrow> \<not> isDone operation)"

fun stillRunning :: "(nat \<Rightarrow> error + Operation) \<Rightarrow> Operation \<Rightarrow> nat \<Rightarrow> bool" where
  "stillRunning getVideosOperation operation0 0 = True"
| "stillRunning getVideosOperation operation0 (Suc n) =
     (stillRunning getVideosOperation operation0 n \<and> running (heldAfter getVideosOperation operation0 n))"

text \<open>The effects of \<open>n\<close> turns of the loop: a timer of five seconds, then a query, each time.\<close>

definition polls :: "nat \<Rightarrow> effect list" where
  "polls n = concat (replicate n [Sleep 5000, GetVideosOperation])"

definition fromQuery :: "(nat \<Rightarrow> error + Operation) \<Rightarrow> nat \<Rightarrow> nat \<Rightarrow> error + Operation" where
  "fromQuery getVideosOperation k j = getVideosOperation (k + j)"

subsection \<open>Changes of the status\<close>






subsection \<open>Sample inputs\<close>

definition sampleFile :: File where
  "sampleFile = \<lparr>file_name = ''questions.pdf'', file_type = ''application/pdf'', file_size = 2097152\<rparr>"

definition sampleReader :: "File \<Rightarrow> error + string" where
  "sampleReader f = Inr ''data:application/pdf;base64,JVBERi0=''"

definition bothDown :: generate_content where
  "bothDown request = Inl (Error ''503 Service Unavailable'')"

definition proAnswers :: generate_content where
  "proAnswers request =
     (if model request = ''gemini-3-pro-preview'' then Inr \<lparr>response_text = Some ''# Study guide''\<rparr>
      else Inl (Error ''503 Service Unavailable''))"

definition flashAnswers :: generate_content where
  "flashAnswers request =
     (if model request = ''gemini-2.5-flash'' then Inr \<lparr>response_text = Some ''# Study guide''\<rparr>
      else Inl (Error ''429 Too Many Requests''))"

definition pastedDirective :: code_units where
  "pastedDirective = js ([CHR 0x0A] @ ''- DEPTH: Concise. Focus on key points and direct answers. Avoid fluff.'')"

definition pngFile :: File where
  "pngFile = \<lparr>file_name = ''scan.png'', file_type = ''image/png'', file_size = 1024\<rparr>"

definition pdfOfSize :: "nat \<Rightarrow> File" where
  "pdfOfSize n = \<lparr>file_name = ''bank.pdf'', file_type = ''application/pdf'', file_size = n\<rparr>"

definition emptyUploadArea :: UploadAreaState where
  "emptyUploadArea = \<lparr>upload_error = None, onFileSelect = []\<rparr>"

definition fourBytes :: "string \<Rightarrow> error + string" where
  "fourBytes base64 = Inr [CHR 0x00, CHR 0x40, CHR 0xFF, CHR 0x7F]"

definition speechAnswers :: speech_endpoint where
  "speechAnswers p = Inr (Some ''AED/fw=='')"

definition speechDown :: speech_endpoint where
  "speechDown p = Inl (Error ''503 Service Unavailable'')"

definition twoSamples :: AudioBuffer where
  "twoSamples = \<lparr>numberOfChannels = 1, sampleRate = 24000, channelData = [1 / 2, 32767 / 32768]\<rparr>"

definition decodedPlayer :: AudioPlayerState where
  "decodedPlayer = audioRun fourBytes ''guide'' [Click speechAnswers, Ended] initialAudioPlayer"

definition runningOperation :: Operation where
  "runningOperation = \<lparr>operation_done = None, operation_response = None\<rparr>"

definition finishedWithoutUri :: Operation where
  "finishedWithoutUri =
     \<lparr>operation_done = Some True, operation_response = Some \<lparr>generatedVideos = Some []\<rparr>\<rparr>"

definition doneAtThirdQuery :: "nat \<Rightarrow> error + Operation" where
  "doneAtThirdQuery k = Inr (if k < 2 then runningOperation else finishedWithoutUri)"

definition neverDone :: "nat \<Rightarrow> error + Operation" where
  "neverDone k = Inr runningOperation"

definition startsRunning :: "string \<Rightarrow> error + Operation" where
  "startsRunning p = Inr runningOperation"





section \<open>The generation orchestrator\<close>

lemma sample_base64:
  "fileToBase64 sampleReader sampleFile = Inr (Some ''JVBERi0='')"
  by (simp add: fileToBase64_def sampleReader_def at_index_def)

lemma tryModel_fails_not_Inr:
  "callFails generateContent request \<Longrightarrow> tryModel generateContent request m emptyMessage \<noteq> Inr answer"
  by (auto simp: callFails_def callSucceeds_def tryModel_def split: sum.splits)

lemma tryModel_Inr:
  "tryModel generateContent request m emptyMessage = Inr answer
     \<Longrightarrow> answer_text answer \<noteq> [] \<and> modelUsed answer = model_id m"
  by (cases "generateContent request") (auto simp: tryModel_def split: if_splits elim: truthy.elims)

text \<open>
  C1. Once the file is read: when the primary call raises or answers with no text, the
  requests sent are the primary one and then the secondary one, once; when the secondary
  call fails as well, the promise is rejected with the fixed message, whatever the two
  failures were.
\<close>

theorem fallback_once_then_fixed_failure:
  assumes "fileToBase64 readAsDataURL file = Inr base64Data"
    and "callFails generateContent (proRequest base64Data (file_type file) (assemblePrompt customInstructions settings))"
  shows "snd (generateAnswersFromPdf readAsDataURL generateContent file customInstructions settings) =
           [proRequest base64Data (file_type file) (assemblePrompt customInstructions settings),
            flashRequest base64Data (file_type file) (assemblePrompt customInstructions settings)]
       \<and> (callFails generateContent (flashRequest base64Data (file_type file) (assemblePrompt customInstructions settings)) \<longrightarrow>
            fst (generateAnswersFromPdf readAsDataURL generateContent file customInstructions settings) =
              Inl (Error ''Failed to generate answers. Please try again later or check if the PDF is valid.''))"
proof -
  obtain e where "tryModel generateContent
      (proRequest base64Data (file_type file) (assemblePrompt customInstructions settings))
      PRO ''Empty response from Pro model'' = Inl e"
    using tryModel_fails_not_Inr [OF assms(2)] by (meson sumE)
  with assms(1) show ?thesis
    by (auto simp: generateAnswersFromPdf_def Let_def failureMessage_def tryModel_fails_not_Inr
        split: sum.splits)
qed

theorem fallback_once_then_fixed_failure_witness:
  "fileToBase64 sampleReader sampleFile = Inr (Some ''JVBERi0='')
   \<and> callFails bothDown (proRequest (Some ''JVBERi0='') ''application/pdf'' (assemblePrompt None None))
   \<and> callFails bothDown (flashRequest (Some ''JVBERi0='') ''application/pdf'' (assemblePrompt None None))
   \<and> snd (generateAnswersFromPdf sampleReader bothDown sampleFile None None) =
        [proRequest (Some ''JVBERi0='') ''application/pdf'' (assemblePrompt None None),
         flashRequest (Some ''JVBERi0='') ''application/pdf'' (assemblePrompt None None)]
   \<and> fst (generateAnswersFromPdf sampleReader bothDown sampleFile None None) =
        Inl (Error ''Failed to generate answers. Please try again later or check if the PDF is valid.'')"
proof -
  have t: "file_type sampleFile = ''application/pdf''"
    by (simp add: sampleFile_def)
  have down: "callFails bothDown request" for request
    by (simp add: callFails_def callSucceeds_def bothDown_def)
  show ?thesis
    using fallback_once_then_fixed_failure [OF sample_base64, of bothDown None None] down sample_base64
    by (simp add: t)
qed

text \<open>
  C2. Once the file is read: when the primary call answers with text, the answer is tagged
  with the primary model and one request was sent; when the primary call raises and the
  secondary call answers with text, the answer is tagged with the secondary model and two
  requests were sent.
\<close>

theorem modelUsed_names_the_answering_tier:
  assumes "fileToBase64 readAsDataURL file = Inr base64Data"
  shows "(callSucceeds generateContent (proRequest base64Data (file_type file) (assemblePrompt customInstructions settings)) \<longrightarrow>
            (\<exists>answer. fst (generateAnswersFromPdf readAsDataURL generateContent file customInstructions settings) = Inr answer
               \<and> modelUsed answer = model_id PRO)
          \<and> length (snd (generateAnswersFromPdf readAsDataURL generateContent file customInstructions settings)) = 1)
       \<and> (callThrows generateContent (proRequest base64Data (file_type file) (assemblePrompt customInstructions settings))
          \<and> callSucceeds generateContent (flashRequest base64Data (file_type file) (assemblePrompt customInstructions settings)) \<longrightarrow>
            (\<exists>answer. fst (generateAnswersFromPdf readAsDataURL generateContent file customInstructions settings) = Inr answer
               \<and> modelUsed answer = model_id FLASH)
          \<and> length (snd (generateAnswersFromPdf readAsDataURL generateContent file customInstructions settings)) = 2)"
  using assms
  by (auto simp: generateAnswersFromPdf_def Let_def callSucceeds_def callThrows_def tryModel_def
      split: sum.splits)

theorem modelUsed_names_the_answering_tier_witness:
  "fileToBase64 sampleReader sampleFile = Inr (Some ''JVBERi0='')
   \<and> callSucceeds proAnswers (proRequest (Some ''JVBERi0='') ''application/pdf'' (assemblePrompt None None))
   \<and> (\<exists>answer. fst (generateAnswersFromPdf sampleReader proAnswers sampleFile None None) = Inr answer
         \<and> modelUsed answer = ''gemini-3-pro-preview'')
   \<and> length (snd (generateAnswersFromPdf sampleReader proAnswers sampleFile None None)) = 1
   \<and> callThrows flashAnswers (proRequest (Some ''JVBERi0='') ''application/pdf'' (assemblePrompt None None))
   \<and> callSucceeds flashAnswers (flashRequest (Some ''JVBERi0='') ''application/pdf'' (assemblePrompt None None))
   \<and> (\<exists>answer. fst (generateAnswersFromPdf sampleReader flashAnswers sampleFile None None) = Inr answer
         \<and> modelUsed answer = ''gemini-2.5-flash'')
   \<and> length (snd (generateAnswersFromPdf sampleReader flashAnswers sampleFile None None)) = 2"
proof -
  have t: "file_type sampleFile = ''application/pdf''"
    by (simp add: sampleFile_def)
  have p: "callSucceeds proAnswers (proRequest (Some ''JVBERi0='') ''application/pdf'' (assemblePrompt None None))"
    by (simp add: callSucceeds_def proAnswers_def proRequest_def)
  have f1: "callThrows flashAnswers (proRequest (Some ''JVBERi0='') ''application/pdf'' (assemblePrompt None None))"
    by (simp add: callThrows_def flashAnswers_def proRequest_def)
  have f2: "callSucceeds flashAnswers (flashRequest (Some ''JVBERi0='') ''application/pdf'' (assemblePrompt None None))"
    by (simp add: callSucceeds_def flashAnswers_def flashRequest_def)
  show ?thesis
    using modelUsed_names_the_answering_tier [OF sample_base64, of proAnswers None None]
      modelUsed_names_the_answering_tier [OF sample_base64, of flashAnswers None None]
      p f1 f2 sample_base64
    by (simp add: t)
qed

text \<open>
  C10. An answer that generateAnswersFromPdf returns has a text that is not empty and is
  tagged with one of the two model identifiers.
\<close>

theorem returned_answer_has_text_and_tier:
  assumes "fst (generateAnswersFromPdf readAsDataURL generateContent file customInstructions settings) = Inr answer"
  shows "answer_text answer \<noteq> [] \<and> modelUsed answer \<in> {''gemini-3-pro-preview'', ''gemini-2.5-flash''}"
  using assms
  by (auto simp: generateAnswersFromPdf_def Let_def split: sum.splits dest!: tryModel_Inr)

theorem returned_answer_has_text_and_tier_witness:
  "fst (generateAnswersFromPdf sampleReader flashAnswers sampleFile None None) =
      Inr \<lparr>answer_text = ''# Study guide'', modelUsed = ''gemini-2.5-flash''\<rparr>
   \<and> answer_text \<lparr>answer_text = ''# Study guide'', modelUsed = ''gemini-2.5-flash''\<rparr> \<noteq> []
   \<and> modelUsed \<lparr>answer_text = ''# Study guide'', modelUsed = ''gemini-2.5-flash''\<rparr>
        \<in> {''gemini-3-pro-preview'', ''gemini-2.5-flash''}"
proof -
  have r: "fst (generateAnswersFromPdf sampleReader flashAnswers sampleFile None None) =
      Inr \<lparr>answer_text = ''# Study guide'', modelUsed = ''gemini-2.5-flash''\<rparr>"
    by (simp add: generateAnswersFromPdf_def sample_base64 Let_def tryModel_def flashAnswers_def
        proRequest_def flashRequest_def)
  show ?thesis
    using returned_answer_has_text_and_tier [OF r] r by simp
qed

section \<open>The prompt\<close>

subsection \<open>Code units of a text\<close>

lemma of_char_word_eq_iff:
  "(of_char c :: 16 word) = of_char d \<longleftrightarrow> c = d"
proof
  assume eq: "(of_char c :: 16 word) = of_char d"
  have small: "take_bit 16 (of_char e :: nat) = of_char e" for e
  proof -
    have "(of_char e :: nat) mod 256 = of_char e"
      by simp
    then have "(of_char e :: nat) < 256"
      by (metis mod_less_divisor zero_less_numeral)
    then have "(of_char e :: nat) < 2 ^ 16"
      by (rule less_trans) simp
    then show ?thesis
      by (rule take_bit_nat_eq_self)
  qed
  from eq have "(word_of_nat (of_char c) :: 16 word) = word_of_nat (of_char d)"
    by (simp only: of_nat_of_char)
  then have "take_bit 16 (of_char c :: nat) = take_bit 16 (of_char d :: nat)"
    by (simp add: word_of_nat_eq_iff)
  then have "(of_char c :: nat) = of_char d"
    by (simp only: small)
  then show "c = d"
    by simp
next
  assume "c = d"
  then show "(of_char c :: 16 word) = of_char d"
    by simp
qed

lemma js_mem_iff: "of_char c \<in> set (js s) \<longleftrightarrow> c \<in> set s"
  by (auto simp: js_def of_char_word_eq_iff)

lemma js_append: "js (a @ b) = js a @ js b"
  by (simp add: js_def)

lemma prefix_js: "prefix (js p) (js t) \<longleftrightarrow> prefix p t"
proof (induction p arbitrary: t)
  case Nil
  show ?case by (simp add: js_def)
next
  case (Cons x p)
  show ?case
  proof (cases t)
    case Nil
    then show ?thesis by (simp add: js_def)
  next
    case (Cons y t')
    with Cons.IH [of t'] show ?thesis
      by (simp add: js_def of_char_word_eq_iff)
  qed
qed

lemma occurrences_js: "occurrences (js p) (js t) = occurrences p t"
proof (induction t)
  case Nil
  show ?case by (simp add: js_def)
next
  case (Cons c t)
  have "prefix (js p) (js (c # t)) \<longleftrightarrow> prefix p (c # t)"
    by (rule prefix_js)
  then have "prefix (js p) (of_char c # js t) \<longleftrightarrow> prefix p (c # t)"
    by (simp add: js_def)
  with Cons show ?case
    by (simp add: js_def)
qed

subsection \<open>Blank custom instructions\<close>

lemma trim_empty_iff: "trim s = [] \<longleftrightarrow> (\<forall>c \<in> set s. is_whitespace c)"
proof
  assume "trim s = []"
  then have all: "\<forall>c \<in> set (dropWhile is_whitespace s). is_whitespace c"
    by (simp add: trim_def dropWhile_eq_Nil_conv)
  have "dropWhile is_whitespace s = []"
  proof (rule ccontr)
    assume ne: "dropWhile is_whitespace s \<noteq> []"
    then have "\<not> is_whitespace (hd (dropWhile is_whitespace s))"
      by (rule hd_dropWhile)
    moreover from ne have "hd (dropWhile is_whitespace s) \<in> set (dropWhile is_whitespace s)"
      by simp
    ultimately show False using all by blast
  qed
  then show "\<forall>c \<in> set s. is_whitespace c"
    by (simp add: dropWhile_eq_Nil_conv)
next
  assume "\<forall>c \<in> set s. is_whitespace c"
  then have "dropWhile is_whitespace s = []"
    by (simp add: dropWhile_eq_Nil_conv)
  then show "trim s = []"
    by (simp only: trim_def rev.simps dropWhile.simps)
qed

lemma is_whitespace_iff: "is_whitespace c \<longleftrightarrow> c \<in> whiteSpaceCodeUnits"
  by (auto simp: is_whitespace_def WhiteSpace_def LineTerminator_def whiteSpaceCodeUnits_def)

lemma applyCustomInstructions_blank:
  "\<forall>c \<in> set ci. is_whitespace c \<Longrightarrow> applyCustomInstructions promptText (Some ci) = promptText"
  by (simp add: applyCustomInstructions_def trim_empty_iff)

lemma applyCustomInstructions_nonblank:
  assumes "\<exists>c \<in> set ci. \<not> is_whitespace c"
  shows "applyCustomInstructions promptText (Some ci) =
    promptText @ js (nl @ nl @ ''USER SPECIFIC INSTRUCTIONS: '' @ dq) @ ci @ js (dq @ ''.'')"
proof -
  from assms have "ci \<noteq> []" and "trim ci \<noteq> []"
    by (auto simp: trim_empty_iff)
  then show ?thesis
    by (simp add: applyCustomInstructions_def)
qed

subsection \<open>Occurrences across a separator\<close>

lemma prefix_append_sep:
  assumes "c \<notin> set q"
  shows "prefix q (a @ c # b) \<longleftrightarrow> prefix q a"
proof
  assume "prefix q (a @ c # b)"
  then have "prefix q a \<or> (\<exists>us. q = a @ us \<and> prefix us (c # b))"
    by (simp add: prefix_append)
  then show "prefix q a"
  proof
    assume "prefix q a"
    then show ?thesis .
  next
    assume "\<exists>us. q = a @ us \<and> prefix us (c # b)"
    then obtain us where us: "q = a @ us" "prefix us (c # b)" by blast
    show ?thesis
    proof (cases us)
      case Nil
      with us show ?thesis by simp
    next
      case (Cons u us')
      with us have "u = c" by simp
      with Cons us assms show ?thesis by simp
    qed
  qed
next
  assume "prefix q a"
  then show "prefix q (a @ c # b)" by (simp add: prefix_prefix)
qed

lemma occurrences_sep:
  assumes "c \<notin> set p" "p \<noteq> []"
  shows "occurrences p (a @ c # b) = occurrences p a @ map (\<lambda>i. i + Suc (length a)) (occurrences p b)"
proof (induction a)
  case Nil
  from assms have "\<not> prefix p (c # b)" by (cases p) auto
  with assms show ?case by simp
next
  case (Cons x a)
  have "prefix p (x # a @ c # b) \<longleftrightarrow> prefix p (x # a)"
    using prefix_append_sep [OF assms(1), of "x # a" b] by simp
  with Cons show ?case by simp
qed

lemma occurrences_line:
  assumes "c \<notin> set q"
  shows "occurrences (c # q) (a @ c # b) = occurrences (c # q) a @ map (\<lambda>i. i + length a) (occurrences (c # q) (c # b))"
proof (induction a)
  case Nil
  show ?case by simp
next
  case (Cons x a)
  have "prefix (c # q) (x # a @ c # b) \<longleftrightarrow> prefix (c # q) (x # a)"
    using prefix_append_sep [OF assms, of a b] by simp
  with Cons show ?case by simp
qed


lemma occurrences_custom:
  assumes p: "p = CHR 0x0A # q" "CHR 0x0A \<notin> set q" "CHR 0x22 \<notin> set q"
    and intro: "occurrences p (nl @ nl @ ''USER SPECIFIC INSTRUCTIONS: '') = []"
    and ci: "occurrences (js p) ci = []"
  shows "occurrences (js p) (js A @ js (nl @ nl @ ''USER SPECIFIC INSTRUCTIONS: '' @ dq) @ ci @ js (dq @ ''.''))
    = occurrences p A"
proof -
  define N :: "16 word" where "N = of_char (CHR 0x0A)"
  define Q :: "16 word" where "Q = of_char (CHR 0x22)"
  define U where "U = js (nl @ ''USER SPECIFIC INSTRUCTIONS: '')"
  have jsp: "js p = N # js q"
    by (simp add: p(1) js_def N_def)
  have Nq: "N \<notin> set (js q)"
    using p(2) by (simp only: N_def js_mem_iff not_False_eq_True)
  have Qq: "Q \<notin> set (js q)"
    using p(3) by (simp only: Q_def js_mem_iff not_False_eq_True)
  have "Q \<noteq> N"
    by (simp add: Q_def N_def of_char_word_eq_iff)
  with Qq have dqp: "Q \<notin> set (js p)" and ne: "js p \<noteq> []"
    by (simp_all add: jsp)
  have shape: "js A @ js (nl @ nl @ ''USER SPECIFIC INSTRUCTIONS: '' @ dq) @ ci @ js (dq @ ''.'')
      = js A @ N # (U @ Q # (ci @ Q # js ''.''))"
    by (simp add: U_def N_def Q_def nl_def dq_def js_def)
  have "N # U = js (nl @ nl @ ''USER SPECIFIC INSTRUCTIONS: '')"
    by (simp add: U_def N_def nl_def js_def)
  then have intro': "occurrences (js p) (N # U) = []"
    using intro by (simp only: occurrences_js)
  have "occurrences p ''.'' = []"
    using p(1) by simp
  then have dot: "occurrences (js p) (js ''.'') = []"
    by (simp only: occurrences_js)
  have 1: "occurrences (js p) (ci @ Q # js ''.'') = []"
    by (simp only: occurrences_sep [OF dqp ne] ci dot list.map append_Nil)
  have 2: "occurrences (js p) ((N # U) @ Q # (ci @ Q # js ''.'')) = []"
    unfolding occurrences_sep [OF dqp ne, of "N # U" "ci @ Q # js ''.''"] 1 intro'
    by (simp only: list.map append_Nil)
  have "occurrences (N # js q) (js A @ N # (U @ Q # (ci @ Q # js ''.'')))
      = occurrences (N # js q) (js A) @
        map (\<lambda>i. i + length (js A)) (occurrences (N # js q) ((N # U) @ Q # (ci @ Q # js ''.'')))"
    by (simp only: occurrences_line [OF Nq] append_Cons)
  then have "occurrences (js p) (js A @ N # (U @ Q # (ci @ Q # js ''.''))) = occurrences (js p) (js A)"
    by (simp only: jsp [symmetric] 2 list.map append_Nil2)
  then show ?thesis
    by (simp only: shape occurrences_js)
qed

lemma occurrences_assemble:
  assumes "p \<in> {depthConcise, depthDetailed, languageHinglish, focusExam, focusConcept}"
    and "\<forall>ci. customInstructions = Some ci \<longrightarrow> occurrences (js p) ci = []"
  shows "occurrences (js p) (assemblePrompt customInstructions settings) = occurrences p (applySettings basePrompt settings)"
proof (cases customInstructions)
  case None
  then show ?thesis by (simp add: assemblePrompt_def applyCustomInstructions_def occurrences_js)
next
  case (Some ci)
  with assms(2) have ci: "occurrences (js p) ci = []" by simp
  have "occurrences (js p) (js A @ js (nl @ nl @ ''USER SPECIFIC INSTRUCTIONS: '' @ dq) @ ci @ js (dq @ ''.''))
      = occurrences p A" for A
    using assms(1)
  proof (elim insertE emptyE)
    assume "p = depthConcise"
    then show ?thesis
      using ci by (intro occurrences_custom [where q = "tl depthConcise"]) (simp_all add: depthConcise_def nl_def)
  next
    assume "p = depthDetailed"
    then show ?thesis
      using ci by (intro occurrences_custom [where q = "tl depthDetailed"]) (simp_all add: depthDetailed_def nl_def)
  next
    assume "p = languageHinglish"
    then show ?thesis
      using ci by (intro occurrences_custom [where q = "tl languageHinglish"]) (simp_all add: languageHinglish_def nl_def)
  next
    assume "p = focusExam"
    then show ?thesis
      using ci by (intro occurrences_custom [where q = "tl focusExam"]) (simp_all add: focusExam_def nl_def)
  next
    assume "p = focusConcept"
    then show ?thesis
      using ci by (intro occurrences_custom [where q = "tl focusConcept"]) (simp_all add: focusConcept_def nl_def)
  qed
  with Some show ?thesis
    by (simp add: assemblePrompt_def applyCustomInstructions_def occurrences_js)
qed

lemma directives_assemble:
  assumes "\<forall>ci. customInstructions = Some ci \<longrightarrow> directiveFree ci"
  shows "depthDirectives (assemblePrompt customInstructions settings) = depthDirectives (js (applySettings basePrompt settings))"
    and "languageDirectives (assemblePrompt customInstructions settings) = languageDirectives (js (applySettings basePrompt settings))"
    and "focusDirectives (assemblePrompt customInstructions settings) = focusDirectives (js (applySettings basePrompt settings))"
  using assms
  by (simp_all add: depthDirectives_def languageDirectives_def focusDirectives_def directiveFree_def
      occurrences_assemble occurrences_js)

lemma occ_Concise_English_Exam:
  "occurrences depthConcise (applySettings basePrompt (Some \<lparr>depth = Concise, language = English, focus = Exam\<rparr>)) = [142]"
  "occurrences depthDetailed (applySettings basePrompt (Some \<lparr>depth = Concise, language = English, focus = Exam\<rparr>)) = []"
  "occurrences languageHinglish (applySettings basePrompt (Some \<lparr>depth = Concise, language = English, focus = Exam\<rparr>)) = []"
  "occurrences focusExam (applySettings basePrompt (Some \<lparr>depth = Concise, language = English, focus = Exam\<rparr>)) = [213]"
  "occurrences focusConcept (applySettings basePrompt (Some \<lparr>depth = Concise, language = English, focus = Exam\<rparr>)) = []"
  by code_simp+

lemma occ_Concise_English_Concept:
  "occurrences depthConcise (applySettings basePrompt (Some \<lparr>depth = Concise, language = English, focus = Concept\<rparr>)) = [142]"
  "occurrences depthDetailed (applySettings basePrompt (Some \<lparr>depth = Concise, language = English, focus = Concept\<rparr>)) = []"
  "occurrences languageHinglish (applySettings basePrompt (Some \<lparr>depth = Concise, language = English, focus = Concept\<rparr>)) = []"
  "occurrences focusExam (applySettings basePrompt (Some \<lparr>depth = Concise, language = English, focus = Concept\<rparr>)) = []"
  "occurrences focusConcept (applySettings basePrompt (Some \<lparr>depth = Concise, language = English, focus = Concept\<rparr>)) = [213]"
  by code_simp+

lemma occ_Concise_Hinglish_Exam:
  "occurrences depthConcise (applySettings basePrompt (Some \<lparr>depth = Concise, language = Hinglish, focus = Exam\<rparr>)) = [142]"
  "occurrences depthDetailed (applySettings basePrompt (Some \<lparr>depth = Concise, language = Hinglish, focus = Exam\<rparr>)) = []"
  "occurrences languageHinglish (applySettings basePrompt (Some \<lparr>depth = Concise, language = Hinglish, focus = Exam\<rparr>)) = [213]"
  "occurrences focusExam (applySettings basePrompt (Some \<lparr>depth = Concise, language = Hinglish, focus = Exam\<rparr>)) = [390]"
  "occurrences focusConcept (applySettings basePrompt (Some \<lparr>depth = Concise, language = Hinglish, focus = Exam\<rparr>)) = []"
  by code_simp+

lemma occ_Concise_Hinglish_Concept:
  "occurrences depthConcise (applySettings basePrompt (Some \<lparr>depth = Concise, language = Hinglish, focus = Concept\<rparr>)) = [142]"
  "occurrences depthDetailed (applySettings basePrompt (Some \<lparr>depth = Concise, language = Hinglish, focus = Concept\<rparr>)) = []"
  "occurrences languageHinglish (applySettings basePrompt (Some \<lparr>depth = Concise, language = Hinglish, focus = Concept\<rparr>)) = [213]"
  "occurrences focusExam (applySettings basePrompt (Some \<lparr>depth = Concise, language = Hinglish, focus = Concept\<rparr>)) = []"
  "occurrences focusConcept (applySettings basePrompt (Some \<lparr>depth = Concise, language = Hinglish, focus = Concept\<rparr>)) = [390]"
  by code_simp+

lemma occ_Detailed_English_Exam:
  "occurrences depthConcise (applySettings basePrompt (Some \<lparr>depth = Detailed, language = English, focus = Exam\<rparr>)) = []"
  "occurrences depthDetailed (applySettings basePrompt (Some \<lparr>depth = Detailed, language = English, focus = Exam\<rparr>)) = [142]"
  "occurrences languageHinglish (applySettings basePrompt (Some \<lparr>depth = Detailed, language = English, focus = Exam\<rparr>)) = []"
  "occurrences focusExam (applySettings basePrompt (Some \<lparr>depth = Detailed, language = English, focus = Exam\<rparr>)) = [242]"
  "occurrences focusConcept (applySettings basePrompt (Some \<lparr>depth = Detailed, language = English, focus = Exam\<rparr>)) = []"
  by code_simp+

lemma occ_Detailed_English_Concept:
  "occurrences depthConcise (applySettings basePrompt (Some \<lparr>depth = Detailed, language = English, focus = Concept\<rparr>)) = []"
  "occurrences depthDetailed (applySettings basePrompt (Some \<lparr>depth = Detailed, language = English, focus = Concept\<rparr>)) = [142]"
  "occurrences languageHinglish (applySettings basePrompt (Some \<lparr>depth = Detailed, language = English, focus = Concept\<rparr>)) = []"
  "occurrences focusExam (applySettings basePrompt (Some \<lparr>depth = Detailed, language = English, focus = Concept\<rparr>)) = []"
  "occurrences focusConcept (applySettings basePrompt (Some \<lparr>depth = Detailed, language = English, focus = Concept\<rparr>)) = [242]"
  by code_simp+

lemma occ_Detailed_Hinglish_Exam:
  "occurrences depthConcise (applySettings basePrompt (Some \<lparr>depth = Detailed, language = Hinglish, focus = Exam\<rparr>)) = []"
  "occurrences depthDetailed (applySettings basePrompt (Some \<lparr>depth = Detailed, language = Hinglish, focus = Exam\<rparr>)) = [142]"
  "occurrences languageHinglish (applySettings basePrompt (Some \<lparr>depth = Detailed, language = Hinglish, focus = Exam\<rparr>)) = [242]"
  "occurrences focusExam (applySettings basePrompt (Some \<lparr>depth = Detailed, language = Hinglish, focus = Exam\<rparr>)) = [419]"
  "occurrences focusConcept (applySettings basePrompt (Some \<lparr>depth = Detailed, language = Hinglish, focus = Exam\<rparr>)) = []"
  by code_simp+

lemma occ_Detailed_Hinglish_Concept:
  "occurrences depthConcise (applySettings basePrompt (Some \<lparr>depth = Detailed, language = Hinglish, focus = Concept\<rparr>)) = []"
  "occurrences depthDetailed (applySettings basePrompt (Some \<lparr>depth = Detailed, language = Hinglish, focus = Concept\<rparr>)) = [142]"
  "occurrences languageHinglish (applySettings basePrompt (Some \<lparr>depth = Detailed, language = Hinglish, focus = Concept\<rparr>)) = [242]"
  "occurrences focusExam (applySettings basePrompt (Some \<lparr>depth = Detailed, language = Hinglish, focus = Concept\<rparr>)) = []"
  "occurrences focusConcept (applySettings basePrompt (Some \<lparr>depth = Detailed, language = Hinglish, focus = Concept\<rparr>)) = [419]"
  by code_simp+


lemmas occ_table =
  occ_Concise_English_Exam occ_Concise_English_Concept occ_Concise_Hinglish_Exam occ_Concise_Hinglish_Concept
  occ_Detailed_English_Exam occ_Detailed_English_Concept occ_Detailed_Hinglish_Exam occ_Detailed_Hinglish_Concept

lemma directives_settings:
  "length (depthDirectives (js (applySettings basePrompt (Some st)))) = 1
    \<and> length (languageDirectives (js (applySettings basePrompt (Some st)))) = (if language st = Hinglish then 1 else 0)
    \<and> length (focusDirectives (js (applySettings basePrompt (Some st)))) = 1
    \<and> directivesInOrder (js (applySettings basePrompt (Some st)))"
proof (cases st)
  case (fields d l f)
  show ?thesis
    unfolding fields depthDirectives_def languageDirectives_def focusDirectives_def directivesInOrder_def
      occurrences_js
    by (cases d; cases l; cases f) (simp_all only: occ_table, simp_all)
qed

text \<open>
  C3, as amended. For each of the eight settings, and custom instructions that hold no
  directive text of their own, the prompt holds one depth directive, a language directive
  exactly for hinglish, and one focus directive, each depth directive before each language
  directive and each of these before each focus directive.
\<close>

theorem directives_once_and_in_order:
  assumes "\<forall>ci. customInstructions = Some ci \<longrightarrow> directiveFree ci"
  shows "length (depthDirectives (assemblePrompt customInstructions (Some st))) = 1
    \<and> length (languageDirectives (assemblePrompt customInstructions (Some st))) = (if language st = Hinglish then 1 else 0)
    \<and> length (focusDirectives (assemblePrompt customInstructions (Some st))) = 1
    \<and> directivesInOrder (assemblePrompt customInstructions (Some st))"
  using directives_settings [of st]
  by (simp add: directivesInOrder_def directives_assemble [OF assms])

theorem directives_once_and_in_order_witness:
  "directiveFree (js ''Explain like a story'')
   \<and> length (depthDirectives (assemblePrompt (Some (js ''Explain like a story''))
        (Some \<lparr>depth = Concise, language = Hinglish, focus = Exam\<rparr>))) = 1
   \<and> length (languageDirectives (assemblePrompt (Some (js ''Explain like a story''))
        (Some \<lparr>depth = Concise, language = Hinglish, focus = Exam\<rparr>))) = 1
   \<and> length (focusDirectives (assemblePrompt (Some (js ''Explain like a story''))
        (Some \<lparr>depth = Concise, language = Hinglish, focus = Exam\<rparr>))) = 1
   \<and> directivesInOrder (assemblePrompt (Some (js ''Explain like a story''))
        (Some \<lparr>depth = Concise, language = Hinglish, focus = Exam\<rparr>))"
proof -
  have free: "directiveFree (js ''Explain like a story'')"
    unfolding directiveFree_def depthDirectives_def languageDirectives_def focusDirectives_def
      occurrences_js
    by code_simp
  then have h: "\<forall>ci. Some (js ''Explain like a story'') = Some ci \<longrightarrow> directiveFree ci"
    by simp
  show ?thesis
    using directives_once_and_in_order [OF h, of "\<lparr>depth = Concise, language = Hinglish, focus = Exam\<rparr>"] free
    by simp
qed

text \<open>
  C3 as stated fails: custom instructions are appended as they are, so a depth line in
  them is a second depth directive of the prompt, after the focus directive.
\<close>

theorem directive_in_custom_instructions_counterexample:
  "length (depthDirectives (assemblePrompt (Some pastedDirective)
      (Some \<lparr>depth = Detailed, language = English, focus = Concept\<rparr>))) = 2
   \<and> \<not> directivesInOrder (assemblePrompt (Some pastedDirective)
      (Some \<lparr>depth = Detailed, language = English, focus = Concept\<rparr>))"
proof -
  have "of_char (CHR ''-'') \<in> set pastedDirective" and "\<not> is_whitespace (of_char (CHR ''-''))"
    by (simp_all add: pastedDirective_def js_def is_whitespace_iff whiteSpaceCodeUnits_def)
  then have "\<exists>c \<in> set pastedDirective. \<not> is_whitespace c"
    by blast
  then have "assemblePrompt (Some pastedDirective) (Some \<lparr>depth = Detailed, language = English, focus = Concept\<rparr>)
      = js (applySettings basePrompt (Some \<lparr>depth = Detailed, language = English, focus = Concept\<rparr>)
          @ (nl @ nl @ ''USER SPECIFIC INSTRUCTIONS: '' @ dq)
          @ ([CHR 0x0A] @ ''- DEPTH: Concise. Focus on key points and direct answers. Avoid fluff.'')
          @ (dq @ ''.''))"
    by (simp only: assemblePrompt_def applyCustomInstructions_nonblank pastedDirective_def js_append)
  then show ?thesis
    unfolding depthDirectives_def languageDirectives_def focusDirectives_def directivesInOrder_def
      occurrences_js
    by code_simp
qed

subsection \<open>Custom instructions\<close>

text \<open>
  C9. Custom instructions that are absent, empty or made of white space only (the code
  units that \<^verbatim>\<open>trim\<close> removes) give the prompt that no custom instructions give; custom
  instructions with a code unit that is not white space are appended as they are, not
  trimmed, between double quotes, after two line feeds and "USER SPECIFIC INSTRUCTIONS: ",
  and followed by a full stop.
\<close>

theorem custom_instructions_blank_or_quoted:
  "(blank customInstructions \<longrightarrow>
      assemblePrompt customInstructions settings = assemblePrompt None settings)
   \<and> (\<forall>ci. customInstructions = Some ci \<and> (\<exists>c \<in> set ci. c \<notin> whiteSpaceCodeUnits) \<longrightarrow>
      assemblePrompt customInstructions settings =
        assemblePrompt None settings
          @ js ([CHR 0x0A, CHR 0x0A] @ ''USER SPECIFIC INSTRUCTIONS: '' @ [CHR 0x22])
          @ ci @ js ([CHR 0x22] @ ''.''))"
proof (intro conjI impI allI)
  assume "blank customInstructions"
  then show "assemblePrompt customInstructions settings = assemblePrompt None settings"
    by (cases customInstructions)
       (simp_all add: assemblePrompt_def applyCustomInstructions_blank is_whitespace_iff,
        simp add: applyCustomInstructions_def)
next
  fix ci
  assume a: "customInstructions = Some ci \<and> (\<exists>c \<in> set ci. c \<notin> whiteSpaceCodeUnits)"
  then have "\<exists>c \<in> set ci. \<not> is_whitespace c"
    by (simp add: is_whitespace_iff)
  from applyCustomInstructions_nonblank [OF this] a
  show "assemblePrompt customInstructions settings =
        assemblePrompt None settings
          @ js ([CHR 0x0A, CHR 0x0A] @ ''USER SPECIFIC INSTRUCTIONS: '' @ [CHR 0x22])
          @ ci @ js ([CHR 0x22] @ ''.'')"
    by (simp add: assemblePrompt_def applyCustomInstructions_def [of _ None] nl_def dq_def)
qed

theorem custom_instructions_blank_or_quoted_witness:
  "blank (Some [0x3000, 0x0020, 0xFEFF, 0x000A, 0x2003, 0x00A0, 0x2029])
   \<and> assemblePrompt (Some [0x3000, 0x0020, 0xFEFF, 0x000A, 0x2003, 0x00A0, 0x2029]) None = assemblePrompt None None
   \<and> (\<exists>c \<in> set [0x200B :: 16 word]. c \<notin> whiteSpaceCodeUnits)
   \<and> assemblePrompt (Some [0x200B]) None =
        assemblePrompt None None
          @ js ([CHR 0x0A, CHR 0x0A] @ ''USER SPECIFIC INSTRUCTIONS: '' @ [CHR 0x22])
          @ [0x200B] @ js ([CHR 0x22] @ ''.'')
   \<and> (\<exists>c \<in> set [0x0020, 0x0068, 0x0069, 0x3000 :: 16 word]. c \<notin> whiteSpaceCodeUnits)
   \<and> assemblePrompt (Some [0x0020, 0x0068, 0x0069, 0x3000]) None =
        assemblePrompt None None
          @ js ([CHR 0x0A, CHR 0x0A] @ ''USER SPECIFIC INSTRUCTIONS: '' @ [CHR 0x22])
          @ [0x0020, 0x0068, 0x0069, 0x3000] @ js ([CHR 0x22] @ ''.'')"
proof -
  have b: "blank (Some [0x3000, 0x0020, 0xFEFF, 0x000A, 0x2003, 0x00A0, 0x2029])"
    by (simp add: whiteSpaceCodeUnits_def)
  have z: "\<exists>c \<in> set [0x200B :: 16 word]. c \<notin> whiteSpaceCodeUnits"
    by (simp add: whiteSpaceCodeUnits_def)
  have h: "\<exists>c \<in> set [0x0020, 0x0068, 0x0069, 0x3000 :: 16 word]. c \<notin> whiteSpaceCodeUnits"
    by (simp add: whiteSpaceCodeUnits_def)
  show ?thesis
    using b z h
      custom_instructions_blank_or_quoted [of "Some [0x3000, 0x0020, 0xFEFF, 0x000A, 0x2003, 0x00A0, 0x2029]" None]
      custom_instructions_blank_or_quoted [of "Some [0x200B]" None]
      custom_instructions_blank_or_quoted [of "Some [0x0020, 0x0068, 0x0069, 0x3000]" None]
    by blast
qed

section \<open>The upload validator\<close>

text \<open>
  C4. A file whose type is not application/pdf gets the type error whatever its size and
  is not selected; a PDF of exactly 20 * 1024 * 1024 bytes is selected without an error; a
  PDF of one byte more gets the size error and is not selected.
\<close>

theorem validateAndSetFile_type_and_size_boundary:
  "(file_type f \<noteq> ''application/pdf'' \<longrightarrow>
      upload_error (validateAndSetFile f s) = Some ''Only PDF files are allowed.''
      \<and> onFileSelect (validateAndSetFile f s) = onFileSelect s)
   \<and> (file_type f = ''application/pdf'' \<and> file_size f = 20 * 1024 * 1024 \<longrightarrow>
      upload_error (validateAndSetFile f s) = None
      \<and> onFileSelect (validateAndSetFile f s) = onFileSelect s @ [f])
   \<and> (file_type f = ''application/pdf'' \<and> file_size f = 20 * 1024 * 1024 + 1 \<longrightarrow>
      upload_error (validateAndSetFile f s) = Some ''File size exceeds the 20MB limit.''
      \<and> onFileSelect (validateAndSetFile f s) = onFileSelect s)"
  by (simp add: validateAndSetFile_def Let_def)


theorem validateAndSetFile_type_and_size_boundary_witness:
  "file_type pngFile \<noteq> ''application/pdf''
   \<and> upload_error (validateAndSetFile pngFile emptyUploadArea) = Some ''Only PDF files are allowed.''
   \<and> onFileSelect (validateAndSetFile pngFile emptyUploadArea) = []
   \<and> file_type (pdfOfSize 20971520) = ''application/pdf'' \<and> file_size (pdfOfSize 20971520) = 20 * 1024 * 1024
   \<and> upload_error (validateAndSetFile (pdfOfSize 20971520) emptyUploadArea) = None
   \<and> onFileSelect (validateAndSetFile (pdfOfSize 20971520) emptyUploadArea) = [pdfOfSize 20971520]
   \<and> file_type (pdfOfSize 20971521) = ''application/pdf'' \<and> file_size (pdfOfSize 20971521) = 20 * 1024 * 1024 + 1
   \<and> upload_error (validateAndSetFile (pdfOfSize 20971521) emptyUploadArea) = Some ''File size exceeds the 20MB limit.''
   \<and> onFileSelect (validateAndSetFile (pdfOfSize 20971521) emptyUploadArea) = []"
proof -
  have png: "file_type pngFile \<noteq> ''application/pdf''"
    by (simp add: pngFile_def)
  have at: "file_type (pdfOfSize 20971520) = ''application/pdf'' \<and> file_size (pdfOfSize 20971520) = 20 * 1024 * 1024"
    by (simp add: pdfOfSize_def)
  have over: "file_type (pdfOfSize 20971521) = ''application/pdf'' \<and> file_size (pdfOfSize 20971521) = 20 * 1024 * 1024 + 1"
    by (simp add: pdfOfSize_def)
  have e: "onFileSelect emptyUploadArea = []"
    by (simp add: emptyUploadArea_def)
  show ?thesis
    using validateAndSetFile_type_and_size_boundary [of pngFile emptyUploadArea]
      validateAndSetFile_type_and_size_boundary [of "pdfOfSize 20971520" emptyUploadArea]
      validateAndSetFile_type_and_size_boundary [of "pdfOfSize 20971521" emptyUploadArea]
      png at over e
    by simp
qed

section \<open>The audio player\<close>

subsection \<open>Decoding\<close>

lemma length_int16View:
  "length (int16View bytes) = length bytes div 2"
  by (induction bytes rule: int16View.induct) simp_all

lemma fillChannel_eq:
  "length samples = length dataInt16 \<Longrightarrow> i \<le> length dataInt16 \<Longrightarrow>
     fillChannel dataInt16 i samples = take i samples @ map sampleOf (drop i dataInt16)"
proof (induction dataInt16 i samples rule: fillChannel.induct)
  case (1 dataInt16 i samples)
  show ?case
  proof (cases "i < length dataInt16")
    case True
    with 1 have "fillChannel dataInt16 i samples =
        take (Suc i) (samples[i := sampleOf (dataInt16 ! i)]) @ map sampleOf (drop (Suc i) dataInt16)"
      by (subst fillChannel.simps) (simp add: sampleOf_def)
    also have "take (Suc i) (samples[i := sampleOf (dataInt16 ! i)]) = take i samples @ [sampleOf (dataInt16 ! i)]"
      using True 1(2) by (simp add: take_Suc_conv_app_nth)
    also have "(take i samples @ [sampleOf (dataInt16 ! i)]) @ map sampleOf (drop (Suc i) dataInt16)
        = take i samples @ map sampleOf (drop i dataInt16)"
      using True by (simp add: Cons_nth_drop_Suc [symmetric])
    finally show ?thesis .
  next
    case False
    with 1 show ?thesis
      by (subst fillChannel.simps) simp
  qed
qed

lemma sampleOf_range: "- 1 \<le> sampleOf w \<and> sampleOf w \<le> 1"
proof -
  have "- (2 ^ 15) \<le> sint w" and "sint w < 2 ^ 15"
    using sint_ge [of w] sint_lt [of w] by simp_all
  then have "real_of_int (- (2 ^ 15)) \<le> real_of_int (sint w)" and "real_of_int (sint w) \<le> real_of_int (2 ^ 15)"
    by (simp_all only: of_int_le_iff less_imp_le)
  then show ?thesis
    by (simp add: sampleOf_def del: of_int_sint)
qed

lemma decodePcm_even:
  assumes "even (length audioData)" "audioData \<noteq> []"
  shows "decodePcm audioData =
     Inr \<lparr>numberOfChannels = 1, sampleRate = 24000, channelData = map sampleOf (int16View audioData)\<rparr>"
proof -
  from assms have "length audioData \<ge> 2"
    by (cases audioData; cases "tl audioData") auto
  then have pos: "length audioData div 2 > 0" by simp
  show ?thesis
    using assms pos
    by (simp add: decodePcm_def Int16Array_def createBuffer_def Let_def length_int16View fillChannel_eq)
qed

lemma decode_four_bytes:
  "decodePcm [0x00, 0x40, 0xFF, 0x7F] = Inr twoSamples"
  by (simp add: decodePcm_even sampleOf_def word_cat_eq twoSamples_def)

text \<open>
  C5, as amended. A byte buffer of even length \<open>N\<close>, not empty, decodes to \<open>N div 2\<close>
  samples, each the 16-bit integer of two bytes over 32768 and so between -1 and 1. A
  buffer of odd length makes the view raise a RangeError, an empty one makes createBuffer
  raise, and no samples come out.
\<close>

theorem decodePcm_samples:
  "(even (length audioData) \<and> audioData \<noteq> [] \<longrightarrow>
      (\<exists>buffer. decodePcm audioData = Inr buffer
         \<and> channelData buffer = map sampleOf (int16View audioData)
         \<and> length (channelData buffer) = length audioData div 2
         \<and> (\<forall>x \<in> set (channelData buffer). - 1 \<le> x \<and> x \<le> 1)))
   \<and> (odd (length audioData) \<longrightarrow> (\<exists>m. decodePcm audioData = Inl (RangeError m)))
   \<and> (audioData = [] \<longrightarrow> (\<exists>m. decodePcm audioData = Inl (NotSupportedError m)))"
proof (intro conjI impI)
  assume "even (length audioData) \<and> audioData \<noteq> []"
  then have "decodePcm audioData =
      Inr \<lparr>numberOfChannels = 1, sampleRate = 24000, channelData = map sampleOf (int16View audioData)\<rparr>"
    by (simp add: decodePcm_even)
  then show "\<exists>buffer. decodePcm audioData = Inr buffer
         \<and> channelData buffer = map sampleOf (int16View audioData)
         \<and> length (channelData buffer) = length audioData div 2
         \<and> (\<forall>x \<in> set (channelData buffer). - 1 \<le> x \<and> x \<le> 1)"
    by (auto simp: length_int16View sampleOf_range)
next
  assume "odd (length audioData)"
  then show "\<exists>m. decodePcm audioData = Inl (RangeError m)"
    by (simp add: decodePcm_def Int16Array_def odd_iff_mod_2_eq_one)
next
  assume "audioData = []"
  then show "\<exists>m. decodePcm audioData = Inl (NotSupportedError m)"
    by (simp add: decodePcm_def Int16Array_def createBuffer_def)
qed


theorem decodePcm_samples_witness:
  "even (length [0x00, 0x40, 0xFF, 0x7F :: 8 word]) \<and> [0x00, 0x40, 0xFF, 0x7F :: 8 word] \<noteq> []
   \<and> (\<exists>buffer. decodePcm [0x00, 0x40, 0xFF, 0x7F] = Inr buffer
         \<and> channelData buffer = map sampleOf (int16View [0x00, 0x40, 0xFF, 0x7F])
         \<and> length (channelData buffer) = length [0x00, 0x40, 0xFF, 0x7F :: 8 word] div 2
         \<and> (\<forall>x \<in> set (channelData buffer). - 1 \<le> x \<and> x \<le> 1))
   \<and> odd (length [0x01, 0x02, 0x03 :: 8 word])
   \<and> (\<exists>m. decodePcm [0x01, 0x02, 0x03] = Inl (RangeError m))
   \<and> (\<exists>m. decodePcm [] = Inl (NotSupportedError m))"
proof -
  have four: "even (length [0x00, 0x40, 0xFF, 0x7F :: 8 word]) \<and> [0x00, 0x40, 0xFF, 0x7F :: 8 word] \<noteq> []"
    by simp
  have three: "odd (length [0x01, 0x02, 0x03 :: 8 word])"
    by simp
  show ?thesis
    using decodePcm_samples [of "[0x00, 0x40, 0xFF, 0x7F]"] decodePcm_samples [of "[0x01, 0x02, 0x03]"]
      decodePcm_samples [of "[]"] four three
    by blast
qed

text \<open>
  C5 as stated fails on three bytes, where a sample and a half would be due and the view
  raises, and on no bytes, where createBuffer raises.
\<close>

theorem decodePcm_odd_length_counterexample:
  "decodePcm [0x01, 0x02, 0x03] = Inl (RangeError ''byte length of Int16Array should be a multiple of 2'')
   \<and> decodePcm [] = Inl (NotSupportedError ''The number of frames provided (0) is less than or equal to the minimum bound (0).'')"
  by (simp add: decodePcm_def Int16Array_def createBuffer_def)

subsection \<open>Replaying\<close>

lemma generateAndDecode_context:
  "contextBeforeBuffer s \<Longrightarrow> generateAndDecode generateSpeech atob guide s = (r, s') \<Longrightarrow> contextBeforeBuffer s'"
  by (auto simp: generateAndDecode_def contextBeforeBuffer_def playBuffer_def Let_def
      split: sum.splits if_splits)

lemma audioStep_context:
  "contextBeforeBuffer s \<Longrightarrow> contextBeforeBuffer (audioStep atob guide e s)"
proof (cases e)
  case (Click generateSpeech)
  assume inv: "contextBeforeBuffer s"
  obtain r s' where g: "generateAndDecode generateSpeech atob guide (s\<lparr>isLoading := True, audio_error := None\<rparr>) = (r, s')"
    by (cases "generateAndDecode generateSpeech atob guide (s\<lparr>isLoading := True, audio_error := None\<rparr>)")
  from inv have "contextBeforeBuffer (s\<lparr>isLoading := True, audio_error := None\<rparr>)"
    by (simp add: contextBeforeBuffer_def)
  from generateAndDecode_context [OF this g] have "contextBeforeBuffer s'" .
  with inv g Click show ?thesis
    by (auto simp: handleGenerateAndPlay_def stopAudio_def playBuffer_def contextBeforeBuffer_def Let_def
        split: option.splits)
next
  case Ended
  assume "contextBeforeBuffer s"
  with Ended show ?thesis by (simp add: contextBeforeBuffer_def)
qed

lemma audioRun_context:
  "contextBeforeBuffer s \<Longrightarrow> contextBeforeBuffer (audioRun atob guide events s)"
  by (induction events arbitrary: s) (simp_all add: audioStep_context)

lemma audioStep_decoded:
  assumes "decoded s"
  shows "decoded (audioStep atob guide e s)
    \<and> audioBufferRef (audioStep atob guide e s) = audioBufferRef s
    \<and> synthesisCalls (audioStep atob guide e s) = synthesisCalls s"
  using assms
  by (cases e) (auto simp: decoded_def handleGenerateAndPlay_def stopAudio_def playBuffer_def Let_def)

lemma audioRun_decoded:
  "decoded s \<Longrightarrow> synthesisCalls (audioRun atob guide events s) = synthesisCalls s"
proof (induction events arbitrary: s)
  case Nil
  show ?case by simp
next
  case (Cons e events)
  from audioStep_decoded [OF Cons.prems, of atob guide e]
  have "decoded (audioStep atob guide e s)"
    and "synthesisCalls (audioStep atob guide e s) = synthesisCalls s"
    by simp_all
  with Cons.IH [of "audioStep atob guide e s"] show ?case by simp
qed

lemma decodedPlayer_eq:
  "decodedPlayer =
     \<lparr>isPlaying = False, isLoading = False, audio_error = None, hasAudio = True,
      audioContext = True, sourceRef = Some twoSamples, audioBufferRef = Some twoSamples,
      started = [twoSamples], synthesisCalls = [''guide'']\<rparr>"
  by (simp add: decodedPlayer_def handleGenerateAndPlay_def initialAudioPlayer_def generateAndDecode_def
      generateAudioGuide_def speechAnswers_def decodeBase64_def fourBytes_def decode_four_bytes
      playBuffer_def Let_def)

text \<open>
  C6. In a state that a mounted player has reached, with \<open>hasAudio\<close> set and a buffer
  stored, a click does not call generateAudioGuide, and starts the stored buffer when
  nothing is playing; whatever happens to the player afterwards, generateAudioGuide is
  not called again.
\<close>

theorem replay_without_synthesis:
  assumes "s = audioRun atob guide events initialAudioPlayer"
    and "hasAudio s" and "audioBufferRef s = Some buffer"
  shows "synthesisCalls (handleGenerateAndPlay generateSpeech atob guide s) = synthesisCalls s
    \<and> (\<not> isPlaying s \<longrightarrow>
          started (handleGenerateAndPlay generateSpeech atob guide s) = started s @ [buffer]
          \<and> isPlaying (handleGenerateAndPlay generateSpeech atob guide s))
    \<and> synthesisCalls (audioRun atob guide later s) = synthesisCalls s"
proof -
  have "contextBeforeBuffer initialAudioPlayer"
    by (simp add: contextBeforeBuffer_def initialAudioPlayer_def)
  then have "contextBeforeBuffer s"
    unfolding assms(1) by (rule audioRun_context)
  with assms(3) have ctx: "audioContext s"
    by (simp add: contextBeforeBuffer_def)
  have d: "decoded s"
    using assms(2,3) by (simp add: decoded_def)
  from audioStep_decoded [OF d, of atob guide "Click generateSpeech"]
  have "synthesisCalls (handleGenerateAndPlay generateSpeech atob guide s) = synthesisCalls s"
    by simp
  moreover have "\<not> isPlaying s \<longrightarrow>
          started (handleGenerateAndPlay generateSpeech atob guide s) = started s @ [buffer]
          \<and> isPlaying (handleGenerateAndPlay generateSpeech atob guide s)"
    using assms(2,3) ctx by (simp add: handleGenerateAndPlay_def playBuffer_def)
  moreover have "synthesisCalls (audioRun atob guide later s) = synthesisCalls s"
    using d by (rule audioRun_decoded)
  ultimately show ?thesis by blast
qed


theorem replay_without_synthesis_witness:
  "decodedPlayer = audioRun fourBytes ''guide'' [Click speechAnswers, Ended] initialAudioPlayer
   \<and> hasAudio decodedPlayer \<and> audioBufferRef decodedPlayer = Some twoSamples \<and> \<not> isPlaying decodedPlayer
   \<and> synthesisCalls (handleGenerateAndPlay speechDown fourBytes ''guide'' decodedPlayer) = [''guide'']
   \<and> started (handleGenerateAndPlay speechDown fourBytes ''guide'' decodedPlayer) = [twoSamples, twoSamples]
   \<and> synthesisCalls (audioRun fourBytes ''guide'' [Click speechDown, Ended, Click speechAnswers] decodedPlayer)
        = [''guide'']"
proof -
  have run: "decodedPlayer = audioRun fourBytes ''guide'' [Click speechAnswers, Ended] initialAudioPlayer"
    by (simp only: decodedPlayer_def)
  have has: "hasAudio decodedPlayer" and buf: "audioBufferRef decodedPlayer = Some twoSamples"
    and idle: "\<not> isPlaying decodedPlayer" and calls: "synthesisCalls decodedPlayer = [''guide'']"
    and st: "started decodedPlayer = [twoSamples]"
    by (simp_all add: decodedPlayer_eq)
  show ?thesis
    using replay_without_synthesis [OF run has buf, of speechDown "[Click speechDown, Ended, Click speechAnswers]"]
      run has buf idle calls st
    by simp
qed

section \<open>The video polling loop\<close>

lemma fromQuery_0: "fromQuery g 0 = g"
  by (rule ext) (simp add: fromQuery_def)

lemma stillRunning_iff:
  "stillRunning g operation0 n \<longleftrightarrow> (\<forall>j < n. running (heldAfter g operation0 j))"
  by (induction n) (auto simp: less_Suc_eq)

lemma held_shift:
  "g k = Inr operation' \<Longrightarrow>
     heldAfter (fromQuery g k) operation (Suc n) = heldAfter (fromQuery g (Suc k)) operation' n"
  by (cases n) (simp_all add: heldAfter_def fromQuery_def)

lemma stillRunning_shift:
  assumes "g k = Inr operation'" "\<not> isDone operation"
  shows "stillRunning (fromQuery g k) operation (Suc n) \<longleftrightarrow> stillRunning (fromQuery g (Suc k)) operation' n"
proof -
  have first: "running (heldAfter (fromQuery g k) operation 0)"
    using assms(2) by (simp add: running_def heldAfter_def)
  have "(\<forall>j < Suc n. running (heldAfter (fromQuery g k) operation j))
      \<longleftrightarrow> running (heldAfter (fromQuery g k) operation 0)
          \<and> (\<forall>j < n. running (heldAfter (fromQuery g k) operation (Suc j)))"
    by (metis less_Suc_eq_0_disj Suc_less_eq zero_less_Suc)
  with first show ?thesis
    by (simp only: stillRunning_iff held_shift [of g k operation', OF assms(1)] simp_thms)
qed

lemma polls_Suc: "(trace @ [Sleep 5000, GetVideosOperation]) @ polls n = trace @ polls (Suc n)"
  by (simp add: polls_def)

lemma poll_returns:
  "stillRunning (fromQuery g k) operation n \<Longrightarrow> heldAfter (fromQuery g k) operation n = held
     \<Longrightarrow> \<not> running held
     \<Longrightarrow> pollOperation g k operation trace = Some (held, trace @ polls n)"
proof (induction n arbitrary: k operation trace)
  case 0
  then show ?case
    by (subst pollOperation.simps) (auto simp: heldAfter_def running_def polls_def split: sum.splits)
next
  case (Suc n)
  from Suc.prems(1) have "running (heldAfter (fromQuery g k) operation 0)"
    by (simp add: stillRunning_iff)
  then have nd: "\<not> isDone operation"
    by (simp add: running_def heldAfter_def)
  show ?case
  proof (cases "g k")
    case (Inl e)
    have "n = 0"
    proof (rule ccontr)
      assume "n \<noteq> 0"
      with Suc.prems(1) have "running (heldAfter (fromQuery g k) operation 1)"
        by (simp add: stillRunning_iff)
      with Inl show False
        by (simp add: running_def heldAfter_def fromQuery_def)
    qed
    with Suc.prems(2) Inl have "held = Inl e"
      by (simp add: heldAfter_def fromQuery_def)
    with nd Inl \<open>n = 0\<close> show ?thesis
      by (subst pollOperation.simps) (simp add: polls_def)
  next
    case (Inr operation')
    from Suc.prems(1) have "stillRunning (fromQuery g (Suc k)) operation' n"
      by (simp only: stillRunning_shift [of g k operation' operation, OF Inr nd])
    moreover from Suc.prems(2) have "heldAfter (fromQuery g (Suc k)) operation' n = held"
      by (simp only: held_shift [of g k operation', OF Inr])
    ultimately have "pollOperation g (Suc k) operation' (trace @ [Sleep 5000, GetVideosOperation])
        = Some (held, (trace @ [Sleep 5000, GetVideosOperation]) @ polls n)"
      using Suc.prems(3) by (rule Suc.IH)
    with nd Inr show ?thesis
      by (subst pollOperation.simps) (simp only: polls_Suc, simp)
  qed
qed

lemma poll_Some:
  assumes major: "pollOperation g k operation trace = Some result"
  shows "\<exists>n. stillRunning (fromQuery g k) operation n
        \<and> \<not> running (heldAfter (fromQuery g k) operation n)
        \<and> result = (heldAfter (fromQuery g k) operation n, trace @ polls n)"
proof (rule pollOperation.raw_induct [where P = "\<lambda>g k operation trace result.
        \<exists>n. stillRunning (fromQuery g k) operation n
        \<and> \<not> running (heldAfter (fromQuery g k) operation n)
        \<and> result = (heldAfter (fromQuery g k) operation n, trace @ polls n)", OF _ major])
  fix poll g k operation trace result
  assume IH: "\<And>g k operation trace result. poll g k operation trace = Some result \<Longrightarrow>
        \<exists>n. stillRunning (fromQuery g k) operation n
        \<and> \<not> running (heldAfter (fromQuery g k) operation n)
        \<and> result = (heldAfter (fromQuery g k) operation n, trace @ polls n)"
    and body: "(if \<not> isDone operation
      then (case g k of
              Inl e \<Rightarrow> Some (Inl e, trace @ [Sleep 5000, GetVideosOperation])
            | Inr operation' \<Rightarrow> poll g (Suc k) operation' (trace @ [Sleep 5000, GetVideosOperation]))
      else Some (Inr operation, trace)) = Some result"
  show "\<exists>n. stillRunning (fromQuery g k) operation n
        \<and> \<not> running (heldAfter (fromQuery g k) operation n)
        \<and> result = (heldAfter (fromQuery g k) operation n, trace @ polls n)"
  proof (cases "isDone operation")
    case True
    with body have "result = (Inr operation, trace)" by simp
    with True have "stillRunning (fromQuery g k) operation 0
        \<and> \<not> running (heldAfter (fromQuery g k) operation 0)
        \<and> result = (heldAfter (fromQuery g k) operation 0, trace @ polls 0)"
      by (simp add: heldAfter_def running_def polls_def)
    then show ?thesis by blast
  next
    case False
    show ?thesis
    proof (cases "g k")
      case (Inl e)
      with False body have "result = (Inl e, trace @ [Sleep 5000, GetVideosOperation])" by simp
      with False Inl have "stillRunning (fromQuery g k) operation 1
        \<and> \<not> running (heldAfter (fromQuery g k) operation 1)
        \<and> result = (heldAfter (fromQuery g k) operation 1, trace @ polls 1)"
        by (simp add: heldAfter_def running_def polls_def fromQuery_def)
      then show ?thesis by blast
    next
      case (Inr operation')
      with False body have "poll g (Suc k) operation' (trace @ [Sleep 5000, GetVideosOperation]) = Some result"
        by simp
      then have "\<exists>n. stillRunning (fromQuery g (Suc k)) operation' n
        \<and> \<not> running (heldAfter (fromQuery g (Suc k)) operation' n)
        \<and> result = (heldAfter (fromQuery g (Suc k)) operation' n, (trace @ [Sleep 5000, GetVideosOperation]) @ polls n)"
        by (rule IH)
      then obtain n where n: "stillRunning (fromQuery g (Suc k)) operation' n"
        "\<not> running (heldAfter (fromQuery g (Suc k)) operation' n)"
        "result = (heldAfter (fromQuery g (Suc k)) operation' n, (trace @ [Sleep 5000, GetVideosOperation]) @ polls n)"
        by blast
      have "stillRunning (fromQuery g k) operation (Suc n)
        \<and> \<not> running (heldAfter (fromQuery g k) operation (Suc n))
        \<and> result = (heldAfter (fromQuery g k) operation (Suc n), trace @ polls (Suc n))"
        using n by (simp only: stillRunning_shift [of g k operation' operation, OF Inr False] held_shift [of g k operation', OF Inr] polls_Suc simp_thms)
      then show ?thesis by blast
    qed
  qed
qed


lemma poll_forever:
  assumes "\<forall>n. stillRunning (fromQuery g k) operation n"
  shows "pollOperation g k operation trace = None"
proof (cases "pollOperation g k operation trace")
  case None
  then show ?thesis .
next
  case (Some result)
  from poll_Some [OF this] obtain n where "stillRunning (fromQuery g k) operation n"
    and "\<not> running (heldAfter (fromQuery g k) operation n)"
    by blast
  moreover from assms have "stillRunning (fromQuery g k) operation (Suc n)" ..
  ultimately show ?thesis by simp
qed

lemma neverDone_running: "stillRunning neverDone runningOperation n"
  by (simp add: stillRunning_iff heldAfter_def neverDone_def running_def isDone_def runningOperation_def)

text \<open>
  C7. The loop returns an operation exactly when the operation held after some number \<open>n\<close>
  of queries reports done and none before did, whatever \<open>n\<close> is; it has then slept five
  seconds and queried once, \<open>n\<close> times over. While every operation held is running, the
  loop and generateEducationalVideo never return. When the operation that ends the loop
  has no media URI, generateEducationalVideo throws the "no URI returned" error.
\<close>

theorem polling_ends_exactly_when_done:
  assumes "generateVideos (videoPrompt topic) = Inr firstOperation"
  shows "(pollOperation getVideosOperation 0 firstOperation trace = Some (Inr operation, trace')
      \<longleftrightarrow> (\<exists>n. stillRunning getVideosOperation firstOperation n
             \<and> heldAfter getVideosOperation firstOperation n = Inr operation \<and> isDone operation
             \<and> trace' = trace @ polls n))
   \<and> ((\<forall>n. stillRunning getVideosOperation firstOperation n) \<longrightarrow>
         pollOperation getVideosOperation 0 firstOperation trace = None
         \<and> generateEducationalVideo generateVideos getVideosOperation topic = None)
   \<and> (\<forall>n. stillRunning getVideosOperation firstOperation n
         \<and> heldAfter getVideosOperation firstOperation n = Inr operation \<and> isDone operation
         \<and> \<not> truthy (videoUriOf operation) \<longrightarrow>
         generateEducationalVideo generateVideos getVideosOperation topic =
           Some (Inl (Error ''Video generation completed but no URI returned.''),
                 GenerateVideos (videoPrompt topic) # polls n))"
proof (intro conjI impI allI)
  show "pollOperation getVideosOperation 0 firstOperation trace = Some (Inr operation, trace')
      \<longleftrightarrow> (\<exists>n. stillRunning getVideosOperation firstOperation n
             \<and> heldAfter getVideosOperation firstOperation n = Inr operation \<and> isDone operation
             \<and> trace' = trace @ polls n)"
  proof
    assume "pollOperation getVideosOperation 0 firstOperation trace = Some (Inr operation, trace')"
    from poll_Some [OF this] obtain n where n: "stillRunning getVideosOperation firstOperation n"
      "\<not> running (heldAfter getVideosOperation firstOperation n)"
      "heldAfter getVideosOperation firstOperation n = Inr operation" "trace' = trace @ polls n"
      by (auto simp: fromQuery_0)
    from n(2,3) have "isDone operation"
      by (simp add: running_def)
    with n(1,3,4) show "\<exists>n. stillRunning getVideosOperation firstOperation n
             \<and> heldAfter getVideosOperation firstOperation n = Inr operation \<and> isDone operation
             \<and> trace' = trace @ polls n"
      by blast
  next
    assume "\<exists>n. stillRunning getVideosOperation firstOperation n
             \<and> heldAfter getVideosOperation firstOperation n = Inr operation \<and> isDone operation
             \<and> trace' = trace @ polls n"
    then obtain n where n: "stillRunning (fromQuery getVideosOperation 0) firstOperation n"
      "heldAfter (fromQuery getVideosOperation 0) firstOperation n = Inr operation" "isDone operation"
      "trace' = trace @ polls n"
      by (auto simp: fromQuery_0)
    from n(3) have "\<not> running (Inr operation)"
      by (simp add: running_def)
    from poll_returns [OF n(1,2) this] n(4)
    show "pollOperation getVideosOperation 0 firstOperation trace = Some (Inr operation, trace')"
      by simp
  qed
next
  assume "\<forall>n. stillRunning getVideosOperation firstOperation n"
  then have "\<forall>n. stillRunning (fromQuery getVideosOperation 0) firstOperation n"
    by (simp add: fromQuery_0)
  then have none: "pollOperation getVideosOperation 0 firstOperation tr = None" for tr
    by (rule poll_forever)
  then show "pollOperation getVideosOperation 0 firstOperation trace = None" .
  from none show "generateEducationalVideo generateVideos getVideosOperation topic = None"
    using assms by (simp add: generateEducationalVideo_def)
next
  fix n
  assume a: "stillRunning getVideosOperation firstOperation n
         \<and> heldAfter getVideosOperation firstOperation n = Inr operation \<and> isDone operation
         \<and> \<not> truthy (videoUriOf operation)"
  then have n: "stillRunning (fromQuery getVideosOperation 0) firstOperation n"
      "heldAfter (fromQuery getVideosOperation 0) firstOperation n = Inr operation"
    by (simp_all add: fromQuery_0)
  from a have "\<not> running (Inr operation)"
    by (simp add: running_def)
  from poll_returns [OF n this, of "[GenerateVideos (videoPrompt topic)]"] a
  show "generateEducationalVideo generateVideos getVideosOperation topic =
           Some (Inl (Error ''Video generation completed but no URI returned.''),
                 GenerateVideos (videoPrompt topic) # polls n)"
    using assms by (simp add: generateEducationalVideo_def)
qed


theorem polling_ends_exactly_when_done_witness:
  "startsRunning (videoPrompt ''osmosis'') = Inr runningOperation
   \<and> stillRunning doneAtThirdQuery runningOperation 3
   \<and> heldAfter doneAtThirdQuery runningOperation 3 = Inr finishedWithoutUri
   \<and> isDone finishedWithoutUri \<and> \<not> truthy (videoUriOf finishedWithoutUri)
   \<and> pollOperation doneAtThirdQuery 0 runningOperation [] =
        Some (Inr finishedWithoutUri,
          [Sleep 5000, GetVideosOperation, Sleep 5000, GetVideosOperation, Sleep 5000, GetVideosOperation])
   \<and> generateEducationalVideo startsRunning doneAtThirdQuery ''osmosis'' =
        Some (Inl (Error ''Video generation completed but no URI returned.''),
          [GenerateVideos (videoPrompt ''osmosis''),
           Sleep 5000, GetVideosOperation, Sleep 5000, GetVideosOperation, Sleep 5000, GetVideosOperation])
   \<and> (\<forall>n. stillRunning neverDone runningOperation n)
   \<and> pollOperation neverDone 0 runningOperation [] = None
   \<and> generateEducationalVideo startsRunning neverDone ''osmosis'' = None"
proof -
  have start: "startsRunning (videoPrompt ''osmosis'') = Inr runningOperation"
    by (simp add: startsRunning_def)
  have three: "stillRunning doneAtThirdQuery runningOperation 3"
    by (simp add: eval_nat_numeral heldAfter_def doneAtThirdQuery_def running_def isDone_def runningOperation_def)
  have held: "heldAfter doneAtThirdQuery runningOperation 3 = Inr finishedWithoutUri"
    by (simp add: heldAfter_def doneAtThirdQuery_def)
  have fin: "isDone finishedWithoutUri" and nouri: "\<not> truthy (videoUriOf finishedWithoutUri)"
    by (simp_all add: isDone_def finishedWithoutUri_def videoUriOf_def at_index_def)
  have p3: "polls 3 = [Sleep 5000, GetVideosOperation, Sleep 5000, GetVideosOperation, Sleep 5000, GetVideosOperation]"
    by (simp add: polls_def eval_nat_numeral)
  have never: "\<forall>n. stillRunning neverDone runningOperation n"
    by (simp add: neverDone_running)
  note third = polling_ends_exactly_when_done [where generateVideos = startsRunning
      and topic = "''osmosis''" and firstOperation = runningOperation
      and getVideosOperation = doneAtThirdQuery and trace = "[]"
      and operation = finishedWithoutUri and trace' = "polls 3", OF start]
  note forever = polling_ends_exactly_when_done [where generateVideos = startsRunning
      and topic = "''osmosis''" and firstOperation = runningOperation
      and getVideosOperation = neverDone and trace = "[]", OF start]
  have reached: "\<exists>n. stillRunning doneAtThirdQuery runningOperation n
      \<and> heldAfter doneAtThirdQuery runningOperation n = Inr finishedWithoutUri
      \<and> isDone finishedWithoutUri \<and> polls 3 = [] @ polls n"
    using three held fin by (intro exI [of _ 3]) simp
  have returned: "pollOperation doneAtThirdQuery 0 runningOperation [] =
      Some (Inr finishedWithoutUri, polls 3)"
    by (rule third [THEN conjunct1, THEN iffD2, OF reached])
  have ended: "stillRunning doneAtThirdQuery runningOperation 3
      \<and> heldAfter doneAtThirdQuery runningOperation 3 = Inr finishedWithoutUri
      \<and> isDone finishedWithoutUri \<and> \<not> truthy (videoUriOf finishedWithoutUri)"
    using three held fin nouri by (intro conjI)
  have thrown: "generateEducationalVideo startsRunning doneAtThirdQuery ''osmosis'' =
      Some (Inl (Error ''Video generation completed but no URI returned.''),
        GenerateVideos (videoPrompt ''osmosis'') # polls 3)"
    by (rule third [THEN conjunct2, THEN conjunct2, THEN spec, THEN mp, OF ended])
  have hangs: "pollOperation neverDone 0 runningOperation [] = None
      \<and> generateEducationalVideo startsRunning neverDone ''osmosis'' = None"
    by (rule forever [THEN conjunct2, THEN conjunct1, THEN mp, OF never])
  show ?thesis
    using start three held fin nouri never returned thrown hangs
    by (simp add: p3)
qed

section \<open>The status of the application\<close>








end
